theory Spec2Isabelle
  imports Complex_Main "HOL-Library.Word" "HOL-Library.Sublist"
begin

text \<open>
  A shallow embedding of the chat client's service layer: the multimodal provider
  client and its OCR pipeline (\<^verbatim>\<open>services/geminiService.ts\<close>), the reasoning-provider
  client with its fallback and the orchestrator that merges both, the conversation
  update of \<^verbatim>\<open>App.tsx\<close> and the image normalizer of \<^verbatim>\<open>utils/file.ts\<close>. Each function
  of the source is one definition of the same name; asynchronous functions are
  modelled by their settled outcome.
\<close>

section \<open>JavaScript strings\<close>

text \<open>
  A JavaScript string is a sequence of UTF-16 code units. Every character the
  services test for (ASCII keywords and the Ethiopic block U+1200..U+137F) lies in the
  Basic Multilingual Plane, so one character is one code unit.
\<close>

type_synonym jsstring = "16 word list"

definition js :: "string \<Rightarrow> jsstring" where
  \<comment> \<open>an ASCII string literal of the source\<close>
  "js s = map of_char s"

definition isWhiteSpace :: "16 word \<Rightarrow> bool" where
  \<comment> \<open>ECMAScript WhiteSpace and LineTerminator code points, as stripped by \<^verbatim>\<open>trim\<close>\<close>
  "isWhiteSpace c \<longleftrightarrow>
     c \<in> set [0x09, 0x0A, 0x0B, 0x0C, 0x0D, 0x20, 0xA0, 0x1680, 0x2028, 0x2029,
               0x202F, 0x205F, 0x3000, 0xFEFF] \<or> (0x2000 \<le> c \<and> c \<le> 0x200A)"

definition trim :: "jsstring \<Rightarrow> jsstring" where
  "trim s = rev (dropWhile isWhiteSpace (rev (dropWhile isWhiteSpace s)))"

definition str_includes :: "jsstring \<Rightarrow> jsstring \<Rightarrow> bool" where
  \<comment> \<open>\<^verbatim>\<open>s.includes(sub)\<close>\<close>
  "str_includes s sub \<longleftrightarrow> sublist sub s"

definition startsWith :: "jsstring \<Rightarrow> jsstring \<Rightarrow> bool" where
  "startsWith s p \<longleftrightarrow> prefix p s"

definition endsWith :: "jsstring \<Rightarrow> jsstring \<Rightarrow> bool" where
  "endsWith s p \<longleftrightarrow> suffix p s"

text \<open>\<^verbatim>\<open>s.split(sep)\<close> for a separator of one code unit: never an empty array.\<close>

fun str_split :: "16 word \<Rightarrow> jsstring \<Rightarrow> jsstring list" where
  "str_split sep [] = [] # []"
| "str_split sep (c # cs) =
     (if c = sep then [] # str_split sep cs
      else (case str_split sep cs of [] \<Rightarrow> [c] # [] | w # ws \<Rightarrow> (c # w) # ws))"

fun str_join :: "jsstring \<Rightarrow> jsstring list \<Rightarrow> jsstring" where
  "str_join sep [] = []"
| "str_join sep [w] = w"
| "str_join sep (w # ws) = w @ sep @ str_join sep ws"

definition substring0 :: "nat \<Rightarrow> jsstring \<Rightarrow> jsstring" where
  \<comment> \<open>\<^verbatim>\<open>s.substring(0, n)\<close>\<close>
  "substring0 n s = take n s"

definition slice0 :: "nat \<Rightarrow> 'a list \<Rightarrow> 'a list" where
  \<comment> \<open>\<^verbatim>\<open>xs.slice(0, n)\<close>\<close>
  "slice0 n xs = take n xs"

definition sliceLast :: "nat \<Rightarrow> 'a list \<Rightarrow> 'a list" where
  \<comment> \<open>\<^verbatim>\<open>xs.slice(-n)\<close>\<close>
  "sliceLast n xs = drop (length xs - n) xs"

fun showNat :: "nat \<Rightarrow> jsstring" where
  \<comment> \<open>a non-negative integer interpolated into a template string\<close>
  "showNat n = (if n < 10 then [of_nat (48 + n)] else showNat (n div 10) @ [of_nat (48 + n mod 10)])"

declare showNat.simps [simp del]

definition truthy :: "jsstring option \<Rightarrow> bool" where
  \<comment> \<open>truthiness of a value of type \<^verbatim>\<open>string | undefined\<close>\<close>
  "truthy v \<longleftrightarrow> (case v of None \<Rightarrow> False | Some s \<Rightarrow> s \<noteq> [])"

definition orElse :: "jsstring option \<Rightarrow> jsstring \<Rightarrow> jsstring" where
  \<comment> \<open>\<^verbatim>\<open>v || d\<close> on \<^verbatim>\<open>string | undefined\<close>\<close>
  "orElse v d = (case v of None \<Rightarrow> d | Some s \<Rightarrow> if s = [] then d else s)"

definition nullish :: "jsstring option \<Rightarrow> jsstring \<Rightarrow> jsstring" where
  \<comment> \<open>\<^verbatim>\<open>v ?? d\<close>: only a missing value is replaced, an empty string is kept\<close>
  "nullish v d = (case v of None \<Rightarrow> d | Some s \<Rightarrow> s)"

definition second :: "jsstring list \<Rightarrow> jsstring option" where
  \<comment> \<open>the second element of an array destructuring \<^verbatim>\<open>[_, x] = xs\<close>\<close>
  "second xs = (case xs of _ # x # _ \<Rightarrow> Some x | _ \<Rightarrow> None)"

section \<open>Thrown values\<close>

datatype thrown =
    Error jsstring            \<comment> \<open>an \<^verbatim>\<open>Error\<close> with its message\<close>
  | ThrownObject jsstring     \<comment> \<open>another object, with its \<^verbatim>\<open>JSON.stringify\<close> rendering\<close>
  | ThrownOther               \<comment> \<open>a primitive or null\<close>

section \<open>Wire types of the provider clients\<close>

record inline_image =
  mimeType :: jsstring
  data :: jsstring

datatype part =
    TextPart jsstring
  | InlineData jsstring "jsstring option"   \<comment> \<open>mime type and base64 payload (\<open>None\<close>: \<^verbatim>\<open>undefined\<close>)\<close>

record gen_request =
  req_model :: jsstring
  req_parts :: "part list"
  req_systemInstruction :: "jsstring option"
  req_responseSchema :: bool      \<comment> \<open>JSON response with the two-field schema requested\<close>
  req_temperature :: "rat option"
  req_stopSequences :: "jsstring list"

record gen_response =
  resp_text :: "jsstring option"            \<comment> \<open>\<^verbatim>\<open>response.text\<close>\<close>
  resp_finishReason :: "jsstring option"    \<comment> \<open>\<^verbatim>\<open>response?.candidates?.[0]?.finishReason\<close>\<close>

record parsed_reply =
  parsedChatResponse :: "jsstring option"
  parsedArtifactContent :: "jsstring option"

record generation_result =
  chatResponse :: jsstring
  artifactContent :: jsstring

datatype msg_role = RoleSystem | RoleUser | RoleAssistant

record deepseek_message =
  role :: msg_role
  content :: jsstring

record history_entry =
  h_role :: jsstring
  h_text :: jsstring

record fetch_request =
  url :: jsstring
  http_method :: jsstring
  headers :: "(jsstring \<times> jsstring) list"
  body_model :: jsstring
  body_messages :: "deepseek_message list"
  body_temperature :: rat
  body_max_tokens :: nat
  body_top_p :: rat
  body_frequency_penalty :: rat
  body_stream :: bool

record fetch_response =
  ok :: bool
  status :: nat
  jsonChoices :: "thrown + jsstring list option"
    \<comment> \<open>\<^verbatim>\<open>await response.json()\<close> read as \<^verbatim>\<open>DeepSeekResponse\<close>: the \<^verbatim>\<open>message.content\<close> of each
        choice, \<open>None\<close> when \<^verbatim>\<open>choices\<close> is absent\<close>
  jsonErrorMessage :: "jsstring option"
    \<comment> \<open>\<^verbatim>\<open>errorData.error?.message\<close> of the body, \<open>None\<close> when absent or unparseable\<close>

datatype call =
    GenerateContent gen_request   \<comment> \<open>\<^verbatim>\<open>ai.models.generateContent(request)\<close>\<close>
  | Fetch fetch_request           \<comment> \<open>\<^verbatim>\<open>fetch(url, request)\<close> of a reasoning provider\<close>
  | OfflineCorrections jsstring   \<comment> \<open>the local \<^verbatim>\<open>applyOfflineAmharicCorrections(text)\<close>\<close>

section \<open>Everything outside the repository\<close>

text \<open>
  The remote providers, the JavaScript built-ins with large tables
  (\<^verbatim>\<open>toLowerCase\<close>, \<^verbatim>\<open>JSON.parse\<close>), the build-time environment variables and the
  literal prompt templates (kilobytes of prose that no property depends on) are
  parameters. A provider's answer is a function of the request it receives. Every
  function that talks to a provider returns the list of calls it issued, in order,
  next to its outcome; the list also records the one local stage of the OCR pipeline,
  the offline correction table. A rejected promise or a \<^verbatim>\<open>throw\<close> is \<open>Inl\<close>.
  The credential checks at module level run when a module is loaded, before any
  request; the model describes the loaded modules.
\<close>

record env =
  toLowerCase :: "jsstring \<Rightarrow> jsstring"
  jsonParse :: "jsstring \<Rightarrow> thrown + parsed_reply"
  generateContent :: "gen_request \<Rightarrow> thrown + gen_response"
  fetch :: "fetch_request \<Rightarrow> thrown + fetch_response"
  DEEPSEEK_API_KEY :: "jsstring option"
  OPENROUTER_API_KEY :: "jsstring option"
  env_DEEPSEEK_API_URL :: "jsstring option"
  env_OPENROUTER_API_URL :: "jsstring option"
  ocrPromptText :: "nat \<Rightarrow> jsstring"
  organizationPromptText :: "nat \<Rightarrow> jsstring \<Rightarrow> jsstring"
  intelligentSystemPromptText :: "jsstring \<Rightarrow> jsstring option \<Rightarrow> jsstring"

section \<open>services/geminiService.ts\<close>

definition handleApiError :: "env \<Rightarrow> thrown \<Rightarrow> jsstring \<Rightarrow> thrown" where
  "handleApiError env error operation =
     (case error of
        Error message \<Rightarrow>
          (let lowerCaseMessage = toLowerCase env message in
           if str_includes lowerCaseMessage (js ''xhr error'')
              \<or> str_includes lowerCaseMessage (js ''rpc failed'')
              \<or> str_includes lowerCaseMessage (js ''500'')
           then Error (js ''The '' @ operation @ js '' failed due to a network issue or an overly large request. Please try again, perhaps with fewer or smaller images.'')
           else Error (js ''The '' @ operation @ js '' failed: '' @ message))
      | ThrownObject json \<Rightarrow>
          Error (js ''The '' @ operation @ js '' failed with an unexpected error: '' @ json)
      | ThrownOther \<Rightarrow>
          Error (js ''An unknown error occurred during the '' @ operation @ js ''.''))"

definition chatRequest ::
  "jsstring \<Rightarrow> jsstring \<Rightarrow> jsstring \<Rightarrow> jsstring \<Rightarrow> inline_image list option \<Rightarrow> gen_request" where
  \<comment> \<open>the argument of \<^verbatim>\<open>ai.models.generateContent\<close> in \<^verbatim>\<open>generateResponse\<close>; 0x22 is the
      double quote, 0x60 the backtick, 0x0A the line feed\<close>
  "chatRequest prompt previousArtifact model systemInstruction images =
     (let imageParts = map (\<lambda>image. InlineData (mimeType image) (Some (data image)))
                           (case images of None \<Rightarrow> [] | Some is \<Rightarrow> is);
          textParts =
            [TextPart (js ''User Prompt: '' @ [0x22] @ prompt @ [0x22]),
             TextPart (js ''Previous Artifact Content: '' @ [0x60, 0x60, 0x60, 0x0A]
                       @ previousArtifact @ [0x0A, 0x60, 0x60, 0x60])]
      in \<lparr> req_model = model, req_parts = imageParts @ textParts,
           req_systemInstruction = Some systemInstruction, req_responseSchema = True,
           req_temperature = Some (7 / 10), req_stopSequences = [] \<rparr>)"

definition generateResponse ::
  "env \<Rightarrow> jsstring \<Rightarrow> jsstring \<Rightarrow> jsstring \<Rightarrow> jsstring \<Rightarrow> inline_image list option
     \<Rightarrow> call list \<times> (thrown + generation_result)" where
  "generateResponse env prompt previousArtifact model systemInstruction images =
     (let request = chatRequest prompt previousArtifact model systemInstruction images;
          failed = (\<lambda>error. Inl (handleApiError env error (js ''Chat Response'')))
      in ([GenerateContent request],
          case generateContent env request of
            Inl error \<Rightarrow> failed error
          | Inr response \<Rightarrow>
              if \<not> truthy (resp_text response)
              then failed (Error (js ''Received an empty or invalid response from the API.''))
              else
                (let jsonString = trim (the (resp_text response)) in
                 if \<not> startsWith jsonString (js ''{'') \<or> \<not> endsWith jsonString (js ''}'')
                 then failed (Error (js ''Received a non-JSON response from the API.''))
                 else
                   (case jsonParse env jsonString of
                      Inl error \<Rightarrow> failed error
                    | Inr parsed \<Rightarrow>
                        Inr \<lparr> chatResponse =
                                nullish (parsedChatResponse parsed)
                                  (js ''I'' @ [0x27] @ js ''m not sure how to respond to that, but here''
                                   @ [0x27] @ js ''s the artifact.''),
                              artifactContent =
                                nullish (parsedArtifactContent parsed) previousArtifact \<rparr>))))"

definition titleRequest :: "jsstring \<Rightarrow> inline_image option \<Rightarrow> gen_request" where
  "titleRequest prompt img =
     \<lparr> req_model = js ''gemini-1.5-flash-latest'',
       req_parts =
         [TextPart (js ''Generate a very short, concise title (5 words or less) for the following user prompt. The title should be plain text, without any special formatting or quotation marks. If an image is provided, incorporate a brief description of the image into the title.''),
          TextPart (js ''User Prompt: '' @ [0x22] @ prompt @ [0x22])]
         @ (case img of None \<Rightarrow> []
            | Some i \<Rightarrow> [InlineData (mimeType i) (Some (data i))]),
       req_systemInstruction = None, req_responseSchema = False,
       req_temperature = Some (1 / 10), req_stopSequences = [0x0A] # [] \<rparr>"

definition generateTitleFromContent ::
  "env \<Rightarrow> jsstring \<Rightarrow> inline_image option \<Rightarrow> call list \<times> jsstring" where
  "generateTitleFromContent env prompt img =
     (let request = titleRequest prompt img
      in ([GenerateContent request],
          case generateContent env request of
            Inr response \<Rightarrow>
              if \<not> truthy (resp_text response) then substring0 30 prompt
              else
                (let title = filter (\<lambda>c. c \<noteq> 0x22) (trim (the (resp_text response)));
                     title = (if length title > 50 then substring0 47 title @ js ''...'' else title)
                 in if title = [] then substring0 30 prompt else title)
          | Inl error \<Rightarrow>
              (let words = str_split 0x20 prompt
               in if length words > 5 then str_join (js '' '') (slice0 5 words) @ js ''...''
                  else prompt)))"

subsection \<open>Offline Amharic corrections\<close>

text \<open>
  \<^verbatim>\<open>corrected.replace(/X/g, 'Y')\<close> for a single code unit \<open>X\<close> rewrites every occurrence.
\<close>

definition replaceAllUnit :: "16 word \<Rightarrow> 16 word \<Rightarrow> jsstring \<Rightarrow> jsstring" where
  "replaceAllUnit x y s = map (\<lambda>c. if c = x then y else c) s"

definition qeFollowers :: "16 word list" where
  \<comment> \<open>the character class of the fifth pattern: U+12ED U+12E9 U+12E8 U+12EE U+12EA U+12D2\<close>
  "qeFollowers = [0x12ED, 0x12E9, 0x12E8, 0x12EE, 0x12EA, 0x12D2]"

text \<open>
  The fifth correction is the global replacement of U+1240 followed by one unit of the
  class with U+1245 and the captured unit. A global regular-expression replacement scans
  from the left and resumes after the end of each match.
\<close>

fun replaceQe :: "jsstring \<Rightarrow> jsstring" where
  "replaceQe (c # d # rest) =
     (if c = 0x1240 \<and> d \<in> set qeFollowers then 0x1245 # d # replaceQe rest
      else c # replaceQe (d # rest))"
| "replaceQe [c] = [c]"
| "replaceQe [] = []"

definition applyOfflineAmharicCorrections :: "jsstring \<Rightarrow> jsstring" where
  \<comment> \<open>U+1220 to U+1230, U+12A3 to U+12A0, U+1203 to U+1200, U+12A7 to U+12A5, then the
      fifth pattern, in the order of the table\<close>
  "applyOfflineAmharicCorrections txt =
     (let corrected = txt;
          corrected = replaceAllUnit 0x1220 0x1230 corrected;
          corrected = replaceAllUnit 0x12A3 0x12A0 corrected;
          corrected = replaceAllUnit 0x1203 0x1200 corrected;
          corrected = replaceAllUnit 0x12A7 0x12A5 corrected;
          corrected = replaceQe corrected
      in corrected)"

definition singleUnitRules :: "jsstring \<Rightarrow> jsstring" where
  \<comment> \<open>the first four rows of the table\<close>
  "singleUnitRules s =
     replaceAllUnit 0x12A7 0x12A5 (replaceAllUnit 0x1203 0x1200
       (replaceAllUnit 0x12A3 0x12A0 (replaceAllUnit 0x1220 0x1230 s)))"

definition hasAmharic :: "jsstring \<Rightarrow> bool" where
  \<comment> \<open>the regular-expression test for a code unit in U+1200..U+137F\<close>
  "hasAmharic s \<longleftrightarrow> list_ex (\<lambda>c. 0x1200 \<le> c \<and> c \<le> 0x137F) s"

subsection \<open>The browser's image objects\<close>

text \<open>
  Pixel contents are kept symbolically: which image was decoded, how it was drawn and
  whether the contrast pass of the OCR normalizer ran over it. What the browser does
  with them (decoding, canvas contexts, encoding, file readers, the TIFF decoder) is a
  parameter. A drawing operation on an existing context completes.
\<close>

record js_file =
  file_type :: jsstring
  file_name :: jsstring
  file_bytes :: "8 word list"

datatype picture =
    LoadedUrl jsstring          \<comment> \<open>an \<^verbatim>\<open>Image\<close> loaded from a data URL\<close>
  | LoadedFile js_file          \<comment> \<open>an \<^verbatim>\<open>Image\<close> loaded from the object URL of a file\<close>
  | TiffPage "8 word list"      \<comment> \<open>\<^verbatim>\<open>new Tiff({ buffer }).toCanvas()\<close>\<close>
  | Scaled picture nat nat      \<comment> \<open>\<^verbatim>\<open>drawImage(src, 0, 0, w, h)\<close>\<close>
  | Enhanced picture            \<comment> \<open>grayscale, gamma 0.8 and the soft threshold band\<close>

record canvas =
  cwidth :: nat
  cheight :: nat
  cpicture :: picture

record browser =
  loadImageUrl :: "jsstring \<Rightarrow> thrown + nat \<times> nat"
    \<comment> \<open>\<^verbatim>\<open>onload\<close> with the natural width and height, or \<^verbatim>\<open>onerror\<close>\<close>
  loadImageFile :: "js_file \<Rightarrow> (nat \<times> nat) option"
  getContext2d :: "nat \<Rightarrow> nat \<Rightarrow> bool"
    \<comment> \<open>whether \<^verbatim>\<open>getContext('2d')\<close> of a canvas of that size is not null\<close>
  toDataURL :: "canvas \<Rightarrow> jsstring \<Rightarrow> rat \<Rightarrow> jsstring"
  readAsDataURL :: "js_file \<Rightarrow> thrown + jsstring"
  readAsArrayBuffer :: "js_file \<Rightarrow> thrown + 8 word list option"
  tiffToCanvas :: "8 word list \<Rightarrow> (nat \<times> nat) option option"
    \<comment> \<open>\<open>None\<close>: the decoder throws; \<open>Some None\<close>: no canvas; else the page size\<close>

subsection \<open>OCR-directed normalization\<close>

text \<open>
  \<^verbatim>\<open>Math.min(maxWidth / width, maxHeight / height, 2)\<close> and \<^verbatim>\<open>Math.round\<close> in exact rational
  arithmetic; a quotient by zero is JavaScript's \<^verbatim>\<open>Infinity\<close>, here \<open>None\<close>.
\<close>

definition jsQuotient :: "nat \<Rightarrow> nat \<Rightarrow> rat option" where
  "jsQuotient a b = (if b = 0 then None else Some (of_nat a / of_nat b))"

definition minWith :: "rat option \<Rightarrow> rat \<Rightarrow> rat" where
  "minWith q x = (case q of None \<Rightarrow> x | Some y \<Rightarrow> min y x)"

definition mathRound :: "rat \<Rightarrow> nat" where
  \<comment> \<open>\<^verbatim>\<open>Math.round\<close> on a non-negative number: ties go up\<close>
  "mathRound x = nat \<lfloor>x + 1 / 2\<rfloor>"

definition ocrScale :: "nat \<Rightarrow> nat \<Rightarrow> nat \<Rightarrow> nat \<Rightarrow> rat" where
  "ocrScale maxWidth maxHeight width height =
     minWith (jsQuotient maxWidth width) (minWith (jsQuotient maxHeight height) 2)"

definition ocrCanvasSize :: "nat \<Rightarrow> nat \<Rightarrow> nat \<times> nat" where
  \<comment> \<open>the canvas size of \<^verbatim>\<open>enhanceImageForOcr\<close> with its default limits of 2048\<close>
  "ocrCanvasSize width height =
     (let scale = ocrScale 2048 2048 width height
      in (mathRound (of_nat width * scale), mathRound (of_nat height * scale)))"

definition enhanceImageForOcr :: "browser \<Rightarrow> jsstring \<Rightarrow> thrown + jsstring" where
  "enhanceImageForOcr br imageDataUrl =
     (case loadImageUrl br imageDataUrl of
        Inl error \<Rightarrow> Inl error
      | Inr (width, height) \<Rightarrow>
          (let (w, h) = ocrCanvasSize width height
           in if \<not> getContext2d br w h then Inl (Error (js ''Could not get canvas context''))
              else Inr (toDataURL br
                          \<lparr> cwidth = w, cheight = h,
                            cpicture = Enhanced (Scaled (LoadedUrl imageDataUrl) w h) \<rparr>
                          (js ''image/png'') (95 / 100))))"

subsection \<open>The OCR pipeline\<close>

record processed_image =
  p_mimeType :: jsstring
  p_data :: "jsstring option"

definition original :: "inline_image \<Rightarrow> processed_image" where
  "original img = \<lparr> p_mimeType = mimeType img, p_data = Some (data img) \<rparr>"

definition preprocessImage :: "browser \<Rightarrow> inline_image \<Rightarrow> processed_image" where
  \<comment> \<open>the body of the \<^verbatim>\<open>images.map\<close> callback; 0x2C is the comma\<close>
  "preprocessImage br img =
     (if mimeType img \<noteq> js ''image/gif'' then
        (case enhanceImageForOcr br (js ''data:'' @ mimeType img @ js '';base64,'' @ data img) of
           Inr processedData \<Rightarrow>
             \<lparr> p_mimeType = js ''image/png'', p_data = second (str_split 0x2C processedData) \<rparr>
         | Inl error \<Rightarrow> original img)
      else original img)"

definition imageParts :: "nat \<Rightarrow> processed_image list \<Rightarrow> part list" where
  \<comment> \<open>the \<^verbatim>\<open>processedImages.forEach\<close> loop: a page label and the image, in order\<close>
  "imageParts n processedImages =
     concat (map (\<lambda>(index, img).
                    [TextPart (js ''--- IMAGE '' @ showNat (index + 1) @ js '' OF '' @ showNat n @ js '' ---''),
                     InlineData (p_mimeType img) (p_data img)])
                 (enumerate 0 processedImages))"

definition ocrRequest :: "env \<Rightarrow> nat \<Rightarrow> processed_image list \<Rightarrow> gen_request" where
  "ocrRequest env n processedImages =
     \<lparr> req_model = js ''gemini-1.5-flash-latest'',
       req_parts = TextPart (ocrPromptText env n) # imageParts n processedImages,
       req_systemInstruction = None, req_responseSchema = False,
       req_temperature = Some 0, req_stopSequences = [] \<rparr>"

definition organizeRequest :: "env \<Rightarrow> jsstring \<Rightarrow> nat \<Rightarrow> gen_request" where
  "organizeRequest env rawText imageCount =
     \<lparr> req_model = js ''gemini-1.5-flash-latest'',
       req_parts = [TextPart (organizationPromptText env imageCount rawText)],
       req_systemInstruction = None, req_responseSchema = False,
       req_temperature = Some (1 / 10), req_stopSequences = [] \<rparr>"

definition organizeExtractedContent :: "env \<Rightarrow> jsstring \<Rightarrow> nat \<Rightarrow> call list \<times> jsstring" where
  "organizeExtractedContent env rawText imageCount =
     (let request = organizeRequest env rawText imageCount
      in ([GenerateContent request],
          case generateContent env request of
            Inr response \<Rightarrow> orElse (map_option trim (resp_text response)) rawText
          | Inl error \<Rightarrow> rawText))"

definition performOcr :: "env \<Rightarrow> browser \<Rightarrow> inline_image list \<Rightarrow> call list \<times> (thrown + jsstring)" where
  "performOcr env br images =
     (let processedImages = map (preprocessImage br) images;
          request = ocrRequest env (length images) processedImages;
          failed = (\<lambda>error. Inl (handleApiError env error (js ''OCR Operation'')))
      in case generateContent env request of
           Inl error \<Rightarrow> ([GenerateContent request], failed error)
         | Inr ocrResponse \<Rightarrow>
             if \<not> truthy (resp_text ocrResponse) then
               ([GenerateContent request],
                let finishReason = resp_finishReason ocrResponse
                in if finishReason = Some (js ''SAFETY'') then
                     failed (Error (js ''The OCR request was blocked due to safety settings. Please check the input images.''))
                   else if truthy finishReason \<and> finishReason \<noteq> Some (js ''STOP'') then
                     failed (Error (js ''OCR failed. The model stopped for reason: ''
                                    @ the finishReason @ js ''.''))
                   else Inr (js ''No text could be extracted from the provided image(s). They may be empty or unclear.''))
             else
               (let rawExtractedText = the (resp_text ocrResponse) in
                if toLowerCase env (trim rawExtractedText) = js ''no text found.'' then
                  ([GenerateContent request],
                   Inr (js ''No text could be extracted from the provided image(s).''))
                else
                  (let trimmedText = trim rawExtractedText;
                       hasAmharicText = hasAmharic trimmedText;
                       (calls, organizedText) =
                          organizeExtractedContent env trimmedText (length images)
                   in if hasAmharicText then
                        (GenerateContent request # calls @ [OfflineCorrections organizedText],
                         Inr (applyOfflineAmharicCorrections organizedText))
                      else (GenerateContent request # calls, Inr organizedText))))"

section \<open>The reasoning providers and the orchestrator\<close>

definition DEEPSEEK_API_URL :: "env \<Rightarrow> jsstring" where
  "DEEPSEEK_API_URL env =
     orElse (env_DEEPSEEK_API_URL env) (js ''https://api.deepseek.com/chat/completions'')"

definition OPENROUTER_API_URL :: "env \<Rightarrow> jsstring" where
  "OPENROUTER_API_URL env =
     orElse (env_OPENROUTER_API_URL env) (js ''https://openrouter.ai/api/v1/chat/completions'')"

definition buildMessages ::
  "env \<Rightarrow> jsstring \<Rightarrow> history_entry list \<Rightarrow> jsstring option \<Rightarrow> jsstring option
     \<Rightarrow> deepseek_message list" where
  \<comment> \<open>the \<^verbatim>\<open>messages\<close> array: system prompt, the last 15 turns, the current prompt\<close>
  "buildMessages env prompt conversationHistory extractedContent systemInstruction =
     (let intelligentSystemPrompt =
            intelligentSystemPromptText env (orElse systemInstruction [])
              (if truthy extractedContent
               then Some (if length (the extractedContent) > 2000
                          then substring0 2000 (the extractedContent) @ js ''...[continued]''
                          else the extractedContent)
               else None);
          recentHistory = sliceLast 15 conversationHistory;
          history =
            map (\<lambda>msg.
                   (let c = h_text msg;
                        c = (if str_includes c (js ''extracted and enhanced'')
                                \<or> str_includes c (js ''Amharic/English text'')
                             then js ''[DOCUMENT_EXTRACTED] '' @ c else c)
                    in \<lparr> role = (if h_role msg = js ''model'' then RoleAssistant else RoleUser),
                         content = c \<rparr>))
                recentHistory;
          enhancedPrompt =
            (if truthy extractedContent \<and> length (the extractedContent) > 100
             then prompt @ [0x0A, 0x0A]
                  @ js ''[CONTEXT: User has previously extracted a Catholic Catechism document in Amharic with table of contents and page references. Use this context to provide relevant, helpful responses.]''
             else prompt)
      in [\<lparr> role = RoleSystem, content = intelligentSystemPrompt \<rparr>] @ history
         @ [\<lparr> role = RoleUser, content = enhancedPrompt \<rparr>])"

definition deepSeekRequest :: "env \<Rightarrow> deepseek_message list \<Rightarrow> fetch_request" where
  "deepSeekRequest env messages =
     \<lparr> url = DEEPSEEK_API_URL env, http_method = js ''POST'',
       headers = [(js ''Content-Type'', js ''application/json''),
                  (js ''Authorization'', js ''Bearer '' @ the (DEEPSEEK_API_KEY env))],
       body_model = js ''deepseek-chat'', body_messages = messages,
       body_temperature = 4 / 10, body_max_tokens = 4000, body_top_p = 9 / 10,
       body_frequency_penalty = 1 / 10, body_stream = False \<rparr>"

definition openRouterRequest :: "env \<Rightarrow> deepseek_message list \<Rightarrow> fetch_request" where
  "openRouterRequest env messages =
     \<lparr> url = OPENROUTER_API_URL env, http_method = js ''POST'',
       headers = [(js ''Content-Type'', js ''application/json''),
                  (js ''Authorization'', js ''Bearer '' @ the (OPENROUTER_API_KEY env)),
                  (js ''HTTP-Referer'', js ''https://amharic-ocr-chat.local''),
                  (js ''X-Title'', js ''Amharic OCR Chat'')],
       body_model = js ''deepseek/deepseek-chat'', body_messages = messages,
       body_temperature = 4 / 10, body_max_tokens = 4000, body_top_p = 9 / 10,
       body_frequency_penalty = 1 / 10, body_stream = False \<rparr>"

definition chatFailed :: "thrown \<Rightarrow> thrown" where
  \<comment> \<open>the outer \<^verbatim>\<open>catch\<close> of \<^verbatim>\<open>generateDeepSeekResponse\<close>\<close>
  "chatFailed error =
     Error (js ''DeepSeek chat failed: ''
            @ (case error of Error message \<Rightarrow> message | _ \<Rightarrow> js ''Unknown error''))"

definition readReply :: "fetch_response \<Rightarrow> thrown + generation_result" where
  \<comment> \<open>from \<^verbatim>\<open>if (!response.ok)\<close> to the \<^verbatim>\<open>return\<close>, inside the outer \<^verbatim>\<open>try\<close>\<close>
  "readReply response =
     (if \<not> ok response then
        Inl (chatFailed (Error (js ''DeepSeek API error: '' @ showNat (status response) @ js '' - ''
                                @ orElse (jsonErrorMessage response) (js ''Unknown error''))))
      else
        (case jsonChoices response of
           Inl error \<Rightarrow> Inl (chatFailed error)
         | Inr None \<Rightarrow> Inl (chatFailed (Error (js ''No response from DeepSeek API'')))
         | Inr (Some []) \<Rightarrow> Inl (chatFailed (Error (js ''No response from DeepSeek API'')))
         | Inr (Some (c # _)) \<Rightarrow> Inr \<lparr> chatResponse = c, artifactContent = [] \<rparr>))"

definition generateDeepSeekResponse ::
  "env \<Rightarrow> jsstring \<Rightarrow> history_entry list \<Rightarrow> jsstring option \<Rightarrow> jsstring option
     \<Rightarrow> call list \<times> (thrown + generation_result)" where
  "generateDeepSeekResponse env prompt conversationHistory extractedContent systemInstruction =
     (let messages = buildMessages env prompt conversationHistory extractedContent systemInstruction;
          (calls, response) =
             (if truthy (DEEPSEEK_API_KEY env) then
                ([Fetch (deepSeekRequest env messages)],
                 case fetch env (deepSeekRequest env messages) of
                   Inr r \<Rightarrow> Some r
                 | Inl error \<Rightarrow> None)
              else ([], None))
      in if (case response of None \<Rightarrow> True | Some r \<Rightarrow> \<not> ok r) then
           (if \<not> truthy (OPENROUTER_API_KEY env) then
              (calls, Inl (chatFailed (Error (js ''Both DeepSeek and OpenRouter unavailable''))))
            else
              (calls @ [Fetch (openRouterRequest env messages)],
               case fetch env (openRouterRequest env messages) of
                 Inl error \<Rightarrow> Inl (chatFailed error)
               | Inr r \<Rightarrow> readReply r))
         else (calls, readReply (the response)))"

definition needsArtifact :: "env \<Rightarrow> jsstring \<Rightarrow> bool" where
  \<comment> \<open>the two Amharic keywords are U+12ED U+134D U+1320 U+1229 and U+12ED U+133B U+1349\<close>
  "needsArtifact env prompt \<longleftrightarrow>
     str_includes (toLowerCase env prompt) (js ''create'')
     \<or> str_includes (toLowerCase env prompt) (js ''generate'')
     \<or> str_includes (toLowerCase env prompt) (js ''write'')
     \<or> str_includes (toLowerCase env prompt) [0x12ED, 0x134D, 0x1320, 0x1229]
     \<or> str_includes (toLowerCase env prompt) [0x12ED, 0x133B, 0x1349]
     \<or> str_includes (toLowerCase env prompt) (js ''code'')
     \<or> str_includes (toLowerCase env prompt) (js ''component'')"

definition generateMixedResponse ::
  "env \<Rightarrow> jsstring \<Rightarrow> jsstring \<Rightarrow> jsstring \<Rightarrow> jsstring \<Rightarrow> history_entry list
     \<Rightarrow> jsstring option \<Rightarrow> inline_image list option
     \<Rightarrow> call list \<times> (thrown + generation_result)" where
  "generateMixedResponse env prompt previousArtifact model systemInstruction
       conversationHistory extractedContent images =
     (if images = None \<or> images = Some [] then
        (let (calls, reply) =
               generateDeepSeekResponse env prompt conversationHistory extractedContent
                 (Some systemInstruction)
         in case reply of
              Inl error \<Rightarrow> (calls, Inl error)
            | Inr deepSeekResponse \<Rightarrow>
                if needsArtifact env prompt then
                  (let (calls2, gemini) =
                         generateResponse env prompt previousArtifact
                           (js ''gemini-1.5-flash-latest'') systemInstruction images
                   in case gemini of
                        Inr geminiResult \<Rightarrow>
                          (calls @ calls2,
                           Inr \<lparr> chatResponse = chatResponse deepSeekResponse,
                                 artifactContent = artifactContent geminiResult \<rparr>)
                      | Inl error \<Rightarrow> (calls @ calls2, Inr deepSeekResponse))
                else (calls, Inr deepSeekResponse))
      else
        generateResponse env prompt previousArtifact (js ''gemini-1.5-flash-latest'')
          systemInstruction images)"

definition isReasoningCall :: "call \<Rightarrow> bool" where
  "isReasoningCall c \<longleftrightarrow> (case c of Fetch _ \<Rightarrow> True | _ \<Rightarrow> False)"

definition intentKeywords :: "jsstring list" where
  \<comment> \<open>the fixed intent keywords, as the specification lists them\<close>
  "intentKeywords =
     [js ''create'', js ''generate'', js ''write'', js ''code'', js ''component'',
      [0x12ED, 0x134D, 0x1320, 0x1229], [0x12ED, 0x133B, 0x1349]]"

definition firstFailed :: "env \<Rightarrow> deepseek_message list \<Rightarrow> bool" where
  \<comment> \<open>the first reasoning provider raises or returns a non-success status\<close>
  "firstFailed env msgs \<longleftrightarrow>
     (case fetch env (deepSeekRequest env msgs) of Inl _ \<Rightarrow> True | Inr r \<Rightarrow> \<not> ok r)"

definition secondFailed :: "env \<Rightarrow> deepseek_message list \<Rightarrow> bool" where
  "secondFailed env msgs \<longleftrightarrow>
     (case fetch env (openRouterRequest env msgs) of Inl _ \<Rightarrow> True | Inr r \<Rightarrow> \<not> ok r)"

section \<open>App.tsx: the conversation state\<close>

datatype chat_role = User | Model

record message =
  msg_role :: chat_role
  msg_text :: jsstring
  msg_images :: "jsstring list option"

record conversation =
  conv_id :: jsstring
  conv_title :: jsstring
  conv_messages :: "message list"
  conv_artifactContent :: jsstring
  isArtifactVisible :: bool
  conv_model :: jsstring
  personaId :: jsstring

definition defaultArtifactContent :: jsstring where
  "defaultArtifactContent =
     js ''<!-- Artifacts will appear here -->'' @ [0x0A, 0x0A] @ js ''/*'' @ [0x0A]
     @ js ''  When you ask me to create something like code, a document, or a plan, I''
     @ [0x27] @ js ''ll update this panel with the complete result.'' @ [0x0A] @ js ''*/''"

definition dataUrl :: "inline_image \<Rightarrow> jsstring" where
  "dataUrl img = js ''data:'' @ mimeType img @ js '';base64,'' @ data img"

definition storeResponse :: "message list \<Rightarrow> generation_result \<Rightarrow> conversation \<Rightarrow> conversation" where
  \<comment> \<open>the updater passed to \<^verbatim>\<open>updateActiveConversation\<close> after a successful reply\<close>
  "storeResponse updatedMessages response conv =
     (let modelMessage = \<lparr> msg_role = Model, msg_text = chatResponse response, msg_images = None \<rparr>;
          hasNewArtifact =
            (trim (artifactContent response) \<noteq> []
             \<and> artifactContent response \<noteq> conv_artifactContent conv
             \<and> artifactContent response \<noteq> defaultArtifactContent)
      in conv \<lparr> conv_messages := updatedMessages @ [modelMessage],
                conv_artifactContent :=
                  (if trim (artifactContent response) \<noteq> [] then artifactContent response
                   else conv_artifactContent conv),
                isArtifactVisible := (isArtifactVisible conv \<or> hasNewArtifact) \<rparr>)"

text \<open>
  One run of \<^verbatim>\<open>handleSendMessage\<close> on the active conversation, with no other update of
  the conversation list in between, so that each updater receives the conversation its
  predecessor returned. The result is the calls issued, the conversation stored at the
  end and the error shown, if any. \<^verbatim>\<open>generateTitleFromContent\<close> catches everything it
  throws, so the \<^verbatim>\<open>catch\<close> around its call here has no branch in the model.
\<close>

definition handleSendMessage ::
  "env \<Rightarrow> conversation \<Rightarrow> jsstring \<Rightarrow> jsstring \<Rightarrow> inline_image list option
     \<Rightarrow> call list \<times> conversation \<times> jsstring option" where
  "handleSendMessage env activeConversation systemInstruction txt images =
     (let userMessage = \<lparr> msg_role = User, msg_text = txt,
                           msg_images = map_option (map dataUrl) images \<rparr>;
          (calls, newTitle) =
             (if conv_title activeConversation = js ''New Chat''
                 \<and> length (conv_messages activeConversation) = 1
              then generateTitleFromContent env txt
                     (case images of Some (first # _) \<Rightarrow> Some first | _ \<Rightarrow> None)
              else ([], conv_title activeConversation));
          updatedMessages = conv_messages activeConversation @ [userMessage];
          conv = activeConversation \<lparr> conv_title := newTitle, conv_messages := updatedMessages \<rparr>;
          (calls2, reply) =
             generateResponse env txt (conv_artifactContent activeConversation)
               (conv_model activeConversation) systemInstruction images
      in case reply of
           Inr response \<Rightarrow> (calls @ calls2, storeResponse updatedMessages response conv, None)
         | Inl err \<Rightarrow>
             (let errorMessage =
                    (case err of Error message \<Rightarrow> message
                     | _ \<Rightarrow> js ''An unknown error occurred.'');
                  errorModelMessage =
                    \<lparr> msg_role = Model,
                      msg_text = js ''Sorry, something went wrong: '' @ errorMessage,
                      msg_images = None \<rparr>
              in (calls @ calls2,
                  conv \<lparr> conv_messages := updatedMessages @ [errorModelMessage] \<rparr>,
                  Some errorMessage)))"

section \<open>utils/file.ts: the general image normalizer\<close>

definition MAX_IMAGE_DIMENSION :: nat where
  "MAX_IMAGE_DIMENSION = 1024"

definition finalCanvas :: "browser \<Rightarrow> canvas \<Rightarrow> canvas" where
  \<comment> \<open>the canvas that \<^verbatim>\<open>processAndEncode\<close> encodes\<close>
  "finalCanvas br cv =
     (let width = cwidth cv; height = cheight cv in
      if width > MAX_IMAGE_DIMENSION \<or> height > MAX_IMAGE_DIMENSION then
        (let (newWidth, newHeight) =
               (if width > height
                then (MAX_IMAGE_DIMENSION,
                      mathRound (of_nat (height * MAX_IMAGE_DIMENSION) / of_nat width))
                else (mathRound (of_nat (width * MAX_IMAGE_DIMENSION) / of_nat height),
                      MAX_IMAGE_DIMENSION))
         in if \<not> getContext2d br newWidth newHeight then cv
            else \<lparr> cwidth = newWidth, cheight = newHeight,
                   cpicture = Scaled (cpicture cv) newWidth newHeight \<rparr>)
      else cv)"

definition processAndEncode :: "browser \<Rightarrow> canvas \<Rightarrow> thrown + inline_image" where
  "processAndEncode br cv =
     (let encoded = toDataURL br (finalCanvas br cv) (js ''image/jpeg'') (8 / 10);
          payload = second (str_split 0x2C encoded)
      in if truthy payload then Inr \<lparr> mimeType = js ''image/jpeg'', data = the payload \<rparr>
         else Inl (Error (js ''Could not parse the final image data URL.'')))"

text \<open>
  \<^verbatim>\<open>header.match(/:(.*?);/)?.[1]\<close>: from the leftmost colon after which a semicolon
  follows with no line terminator in between, the units up to that semicolon.
\<close>

fun untilSemicolon :: "jsstring \<Rightarrow> jsstring option" where
  "untilSemicolon [] = None"
| "untilSemicolon (c # cs) =
     (if c = 0x3B then Some []
      else if c \<in> set [0x0A, 0x0D, 0x2028, 0x2029] then None
      else map_option ((#) c) (untilSemicolon cs))"

fun matchMimeType :: "jsstring \<Rightarrow> jsstring option" where
  "matchMimeType [] = None"
| "matchMimeType (c # cs) =
     (if c = 0x3A then (case untilSemicolon cs of Some m \<Rightarrow> Some m | None \<Rightarrow> matchMimeType cs)
      else matchMimeType cs)"

definition isTiff :: "env \<Rightarrow> js_file \<Rightarrow> bool" where
  "isTiff env f \<longleftrightarrow>
     file_type f = js ''image/tiff''
     \<or> endsWith (toLowerCase env (file_name f)) (js ''.tiff'')
     \<or> endsWith (toLowerCase env (file_name f)) (js ''.tif'')"

definition fileToBase64 :: "env \<Rightarrow> browser \<Rightarrow> js_file \<Rightarrow> thrown + inline_image" where
  "fileToBase64 env br f =
     (if isTiff env f then
        (case readAsArrayBuffer br f of
           Inl error \<Rightarrow> Inl error
         | Inr None \<Rightarrow> Inl (Error (js ''Failed to read TIFF file into buffer.''))
         | Inr (Some buffer) \<Rightarrow>
             (case tiffToCanvas br buffer of
                None \<Rightarrow> Inl (Error (js ''An error occurred while converting the TIFF file.''))
              | Some None \<Rightarrow> Inl (Error (js ''Failed to convert TIFF to canvas.''))
              | Some (Some (w, h)) \<Rightarrow>
                  processAndEncode br \<lparr> cwidth = w, cheight = h, cpicture = TiffPage buffer \<rparr>))
      else
        (case loadImageFile br f of
           None \<Rightarrow> Inl (Error (js ''Failed to load image for processing. The file might be corrupt or an unsupported format.''))
         | Some (w, h) \<Rightarrow>
             if w \<le> MAX_IMAGE_DIMENSION \<and> h \<le> MAX_IMAGE_DIMENSION
                \<and> file_type f = js ''image/jpeg''
             then
               (case readAsDataURL br f of
                  Inl error \<Rightarrow> Inl error
                | Inr result \<Rightarrow>
                    (let pieces = str_split 0x2C result;
                         mime = matchMimeType (hd pieces);
                         payload = second pieces
                     in if truthy mime \<and> truthy payload
                        then Inr \<lparr> mimeType = the mime, data = the payload \<rparr>
                        else Inl (Error (js ''Could not parse file data URL.''))))
             else if \<not> getContext2d br w h then Inl (Error (js ''Could not get canvas context.''))
             else processAndEncode br \<lparr> cwidth = w, cheight = h, cpicture = LoadedFile f \<rparr>))"

definition passesThrough :: "env \<Rightarrow> browser \<Rightarrow> js_file \<Rightarrow> bool" where
  \<comment> \<open>the file takes the branch of \<^verbatim>\<open>fileToBase64\<close> that reads it back without a canvas\<close>
  "passesThrough env br f \<longleftrightarrow>
     \<not> isTiff env f
     \<and> (case loadImageFile br f of
          None \<Rightarrow> False
        | Some (w, h) \<Rightarrow> w \<le> MAX_IMAGE_DIMENSION \<and> h \<le> MAX_IMAGE_DIMENSION
                          \<and> file_type f = js ''image/jpeg'')"


section \<open>Concrete worlds for the worked examples\<close>

definition asciiLowerCase :: "jsstring \<Rightarrow> jsstring" where
  \<comment> \<open>\<^verbatim>\<open>toLowerCase\<close> on strings whose only cased characters are ASCII letters\<close>
  "asciiLowerCase s = map (\<lambda>c. if 0x41 \<le> c \<and> c \<le> 0x5A then c + 0x20 else c) s"

definition env0 :: env where
  \<comment> \<open>no credentials, every provider call rejected\<close>
  "env0 = \<lparr> toLowerCase = asciiLowerCase, jsonParse = (\<lambda>_. Inl ThrownOther),
            generateContent = (\<lambda>_. Inl ThrownOther), fetch = (\<lambda>_. Inl ThrownOther),
            DEEPSEEK_API_KEY = None, OPENROUTER_API_KEY = None,
            env_DEEPSEEK_API_URL = None, env_OPENROUTER_API_URL = None,
            ocrPromptText = (\<lambda>_. []), organizationPromptText = (\<lambda>_ _. []),
            intelligentSystemPromptText = (\<lambda>_ _. []) \<rparr>"

definition browser0 :: browser where
  \<comment> \<open>a browser in which nothing decodes and no context is available\<close>
  "browser0 = \<lparr> loadImageUrl = (\<lambda>_. Inl ThrownOther), loadImageFile = (\<lambda>_. None),
      getContext2d = (\<lambda>_ _. False), toDataURL = (\<lambda>_ _ _. []),
      readAsDataURL = (\<lambda>_. Inl ThrownOther), readAsArrayBuffer = (\<lambda>_. Inl ThrownOther),
      tiffToCanvas = (\<lambda>_. None) \<rparr>"

definition gifImage :: inline_image where
  "gifImage = \<lparr> mimeType = js ''image/gif'', data = js ''R0lGODlh'' \<rparr>"


definition envReply :: "jsstring \<Rightarrow> parsed_reply \<Rightarrow> env" where
  \<comment> \<open>the multimodal provider answers the text \<open>t\<close>, which parses to \<open>parsed\<close>\<close>
  "envReply t parsed = env0 \<lparr> jsonParse := (\<lambda>_. Inr parsed),
      generateContent := (\<lambda>_. Inr \<lparr> resp_text = Some t, resp_finishReason = Some (js ''STOP'') \<rparr>) \<rparr>"

definition conv0 :: conversation where
  "conv0 = \<lparr> conv_id = js ''1700000000000'', conv_title = js ''Login page'',
             conv_messages = [], conv_artifactContent = js ''<p>old</p>'',
             isArtifactVisible = True, conv_model = js ''gemini-2.5-flash'',
             personaId = js ''gemini-assistant'' \<rparr>"

definition loginFormJson :: jsstring where
  \<comment> \<open>a reply object with the chat text \<open>Done.\<close> and a form as its artifact\<close>
  "loginFormJson =
     js ''{'' @ [0x22] @ js ''chatResponse'' @ [0x22] @ js '':'' @ [0x22] @ js ''Done.'' @ [0x22]
     @ js '','' @ [0x22] @ js ''artifactContent'' @ [0x22] @ js '':'' @ [0x22]
     @ js ''<form>...</form>'' @ [0x22] @ js ''}''"

definition envChat :: env where
  \<comment> \<open>both reasoning providers configured; DeepSeek unreachable, OpenRouter answers;
      the multimodal provider answers \<open>loginFormJson\<close>\<close>
  "envChat = env0 \<lparr>
      jsonParse := (\<lambda>s. if s = loginFormJson
                         then Inr \<lparr> parsedChatResponse = Some (js ''Done.''),
                                    parsedArtifactContent = Some (js ''<form>...</form>'') \<rparr>
                         else Inl (Error (js ''Unexpected token''))),
      generateContent := (\<lambda>_. Inr \<lparr> resp_text = Some loginFormJson,
                                        resp_finishReason = Some (js ''STOP'') \<rparr>),
      fetch := (\<lambda>request.
                  if body_model request = js ''deepseek-chat'' then Inl (Error (js ''Failed to fetch''))
                  else Inr \<lparr> ok = True, status = 200,
                             jsonChoices = Inr (Some [js ''Here'' @ [0x27] @ js ''s a login form.'']),
                             jsonErrorMessage = None \<rparr>),
      DEEPSEEK_API_KEY := Some (js ''sk-deepseek''),
      OPENROUTER_API_KEY := Some (js ''sk-openrouter'') \<rparr>"

definition sizePayload :: "canvas \<Rightarrow> jsstring" where
  \<comment> \<open>a stand-in for the encoded pixels that spells the size of the encoded canvas\<close>
  "sizePayload cv = showNat (cwidth cv) @ js ''x'' @ showNat (cheight cv)"

definition browserOk :: browser where
  \<comment> \<open>JPEG files decode to 800 x 600, other files and TIFF pages to 2000 x 1000, data
      URLs to 800 x 600; every context is available\<close>
  "browserOk =
     \<lparr> loadImageUrl = (\<lambda>_. Inr (800, 600)),
       loadImageFile = (\<lambda>f. if file_type f = js ''image/jpeg'' then Some (800, 600)
                              else Some (2000, 1000)),
       getContext2d = (\<lambda>_ _. True),
       toDataURL = (\<lambda>cv mime _. js ''data:'' @ mime @ js '';base64,'' @ sizePayload cv),
       readAsDataURL = (\<lambda>f. Inr (js ''data:'' @ file_type f @ js '';base64,'' @ js ''/9j/4AAQSkZJRg=='')),
       readAsArrayBuffer = (\<lambda>f. Inr (Some (file_bytes f))),
       tiffToCanvas = (\<lambda>_. Some (Some (2000, 1000))) \<rparr>"

definition browserNoResize :: browser where
  \<comment> \<open>as \<open>browserOk\<close>, but a canvas of 1024 x 512 gets no context\<close>
  "browserNoResize = browserOk \<lparr> getContext2d := (\<lambda>w h. \<not> (w = 1024 \<and> h = 512)) \<rparr>"

definition pngFile :: js_file where
  "pngFile = \<lparr> file_type = js ''image/png'', file_name = js ''scan.png'', file_bytes = [0x89, 0x50] \<rparr>"

definition jpegFile :: js_file where
  "jpegFile = \<lparr> file_type = js ''image/jpeg'', file_name = js ''photo.jpg'', file_bytes = [0xFF, 0xD8] \<rparr>"

definition envStop :: "jsstring option \<Rightarrow> env" where
  \<comment> \<open>every call of the multimodal provider answers no text, with the given stop reason\<close>
  "envStop reason = env0 \<lparr> generateContent :=
      (\<lambda>_. Inr \<lparr> resp_text = None, resp_finishReason = reason \<rparr>) \<rparr>"





section \<open>Properties of the offline correction table\<close>

lemma replaceQe_Cons_nomatch:
  "c \<noteq> 0x1240 \<or> xs = [] \<or> hd xs \<notin> set qeFollowers \<Longrightarrow> replaceQe (c # xs) = c # replaceQe xs"
  by (cases xs) auto

lemma hd_replaceQe:
  "hd (replaceQe (d # rest)) = d \<or> hd (replaceQe (d # rest)) = 0x1245"
  by (cases rest) auto

lemma U1245_not_follower: "(0x1245 :: 16 word) \<notin> set qeFollowers"
  by (simp add: qeFollowers_def)

lemma follower_not_U1240: "d \<in> set qeFollowers \<Longrightarrow> d \<noteq> 0x1240"
  by (auto simp: qeFollowers_def)

lemma replaceQe_idem: "replaceQe (replaceQe s) = replaceQe s"
proof (induction s rule: replaceQe.induct)
  case (1 c d rest)
  show ?case
  proof (cases "c = 0x1240 \<and> d \<in> set qeFollowers")
    case True
    then have "replaceQe (c # d # rest) = 0x1245 # d # replaceQe rest" by simp
    moreover have "replaceQe (0x1245 # d # replaceQe rest) = 0x1245 # replaceQe (d # replaceQe rest)"
      by simp
    moreover have "replaceQe (d # replaceQe rest) = d # replaceQe (replaceQe rest)"
      using True follower_not_U1240 by (intro replaceQe_Cons_nomatch) blast
    ultimately show ?thesis using 1 True by simp
  next
    case False
    then have unfolded: "replaceQe (c # d # rest) = c # replaceQe (d # rest)" by auto
    have "hd (replaceQe (d # rest)) \<notin> set qeFollowers \<or> c \<noteq> 0x1240"
      using False hd_replaceQe [of d rest] U1245_not_follower by auto
    then have "replaceQe (c # replaceQe (d # rest)) = c # replaceQe (replaceQe (d # rest))"
      by (intro replaceQe_Cons_nomatch) blast
    then show ?thesis using unfolded 1 False by auto
  qed
qed simp_all

lemma set_replaceQe: "set (replaceQe s) \<subseteq> insert 0x1245 (set s)"
  by (induction s rule: replaceQe.induct) auto

lemma replaceQe_keeps_absent: "z \<notin> set s \<Longrightarrow> z \<noteq> 0x1245 \<Longrightarrow> z \<notin> set (replaceQe s)"
  using set_replaceQe [of s] by auto

lemma replaceAllUnit_absent: "x \<notin> set s \<Longrightarrow> replaceAllUnit x y s = s"
  by (induction s) (auto simp: replaceAllUnit_def)

lemma replaceAllUnit_removes: "x \<noteq> y \<Longrightarrow> x \<notin> set (replaceAllUnit x y s)"
  by (auto simp: replaceAllUnit_def)

lemma replaceAllUnit_keeps_absent:
  "z \<notin> set s \<Longrightarrow> z \<noteq> y \<Longrightarrow> z \<notin> set (replaceAllUnit x y s)"
  by (auto simp: replaceAllUnit_def)

lemma corrections_eq: "applyOfflineAmharicCorrections s = replaceQe (singleUnitRules s)"
  by (simp add: applyOfflineAmharicCorrections_def singleUnitRules_def)

lemma singleUnitRules_clean:
  "0x1220 \<notin> set (singleUnitRules s)" "0x12A3 \<notin> set (singleUnitRules s)"
  "0x1203 \<notin> set (singleUnitRules s)" "0x12A7 \<notin> set (singleUnitRules s)"
  unfolding singleUnitRules_def
  by (simp_all add: replaceAllUnit_removes replaceAllUnit_keeps_absent)

lemma singleUnitRules_id:
  "0x1220 \<notin> set s \<Longrightarrow> 0x12A3 \<notin> set s \<Longrightarrow> 0x1203 \<notin> set s \<Longrightarrow> 0x12A7 \<notin> set s
    \<Longrightarrow> singleUnitRules s = s"
  by (simp add: singleUnitRules_def replaceAllUnit_absent)

text \<open>
  C10. The offline correction table is idempotent: correcting a corrected text changes
  nothing, for every text. No replacement produces a unit that a pattern of the table
  matches.
\<close>

theorem corrections_idempotent:
  "applyOfflineAmharicCorrections (applyOfflineAmharicCorrections s)
     = applyOfflineAmharicCorrections s"
proof -
  have "singleUnitRules (replaceQe (singleUnitRules s)) = replaceQe (singleUnitRules s)"
    by (rule singleUnitRules_id) (simp_all add: replaceQe_keeps_absent singleUnitRules_clean)
  then show ?thesis by (simp add: corrections_eq replaceQe_idem)
qed

section \<open>Properties of the OCR pipeline\<close>









section \<open>Properties of the chat turn\<close>

lemma generateResponse_calls:
  "fst (generateResponse env prompt previousArtifact model systemInstruction images)
     = [GenerateContent (chatRequest prompt previousArtifact model systemInstruction images)]"
  by (simp add: generateResponse_def Let_def)

lemma generateResponse_parsed:
  assumes "generateContent env (chatRequest prompt previousArtifact model systemInstruction images) = Inr response"
      and "truthy (resp_text response)"
      and "startsWith (trim (the (resp_text response))) (js ''{'')"
      and "endsWith (trim (the (resp_text response))) (js ''}'')"
      and "jsonParse env (trim (the (resp_text response))) = Inr parsed"
  shows "generateResponse env prompt previousArtifact model systemInstruction images =
           ([GenerateContent (chatRequest prompt previousArtifact model systemInstruction images)],
            Inr \<lparr> chatResponse = nullish (parsedChatResponse parsed)
                     (js ''I'' @ [0x27] @ js ''m not sure how to respond to that, but here''
                                   @ [0x27] @ js ''s the artifact.''),
                  artifactContent = nullish (parsedArtifactContent parsed) previousArtifact \<rparr>)"
  using assms by (simp add: generateResponse_def Let_def)

lemma storeResponse_artifact:
  "conv_artifactContent (storeResponse updatedMessages response conv) =
     (if trim (artifactContent response) \<noteq> [] then artifactContent response
      else conv_artifactContent conv)"
  by (simp add: storeResponse_def Let_def)

lemma envReply_simps:
  "generateContent (envReply t parsed) request
     = Inr \<lparr> resp_text = Some t, resp_finishReason = Some (js ''STOP'') \<rparr>"
  "jsonParse (envReply t parsed) s = Inr parsed"
  by (simp_all add: envReply_def env0_def)

lemma envChat_simps:
  "generateContent envChat request
     = Inr \<lparr> resp_text = Some loginFormJson, resp_finishReason = Some (js ''STOP'') \<rparr>"
  "jsonParse envChat loginFormJson
     = Inr \<lparr> parsedChatResponse = Some (js ''Done.''),
             parsedArtifactContent = Some (js ''<form>...</form>'') \<rparr>"
  "fetch envChat frequest =
     (if body_model frequest = js ''deepseek-chat'' then Inl (Error (js ''Failed to fetch''))
      else Inr \<lparr> ok = True, status = 200,
                 jsonChoices = Inr (Some [js ''Here'' @ [0x27] @ js ''s a login form.'']),
                 jsonErrorMessage = None \<rparr>)"
  "DEEPSEEK_API_KEY envChat = Some (js ''sk-deepseek'')"
  "OPENROUTER_API_KEY envChat = Some (js ''sk-openrouter'')"
  "toLowerCase envChat s = asciiLowerCase s"
  by (simp_all add: envChat_def env0_def)

lemma trim_loginFormJson: "trim loginFormJson = loginFormJson"
  by (simp add: trim_def loginFormJson_def js_def isWhiteSpace_def)

lemma loginFormJson_braces:
  "startsWith loginFormJson (js ''{'')" "endsWith loginFormJson (js ''}'')" "loginFormJson \<noteq> []"
  by (simp_all add: startsWith_def endsWith_def loginFormJson_def js_def suffix_def)

lemma envChat_generateResponse:
  "generateResponse envChat prompt previousArtifact model systemInstruction images =
     ([GenerateContent (chatRequest prompt previousArtifact model systemInstruction images)],
      Inr \<lparr> chatResponse = js ''Done.'', artifactContent = js ''<form>...</form>'' \<rparr>)"
proof -
  let ?response = "\<lparr> resp_text = Some loginFormJson, resp_finishReason = Some (js ''STOP'') \<rparr>"
  have "generateContent envChat (chatRequest prompt previousArtifact model systemInstruction images)
          = Inr ?response"
    by (simp add: envChat_simps)
  from generateResponse_parsed [OF this, of "\<lparr> parsedChatResponse = Some (js ''Done.''),
             parsedArtifactContent = Some (js ''<form>...</form>'') \<rparr>"]
  show ?thesis
    by (simp add: truthy_def trim_loginFormJson loginFormJson_braces envChat_simps nullish_def)
qed

text \<open>
  C1. When the provider's reply parses to an object whose artifact field is missing,
  empty or whitespace only, the conversation stored at the end of the turn has the
  artifact it had before. With a missing field \<^verbatim>\<open>generateResponse\<close> itself returns the
  previous artifact; and the updater keeps the conversation's artifact for every
  result whose artifact is blank.
\<close>

theorem artifact_preserved:
  assumes "generateContent env (chatRequest txt (conv_artifactContent activeConversation)
              (conv_model activeConversation) systemInstruction images) = Inr response"
      and "truthy (resp_text response)"
      and "startsWith (trim (the (resp_text response))) (js ''{'')"
      and "endsWith (trim (the (resp_text response))) (js ''}'')"
      and "jsonParse env (trim (the (resp_text response))) = Inr parsed"
      and "case parsedArtifactContent parsed of None \<Rightarrow> True | Some a \<Rightarrow> trim a = []"
  shows "conv_artifactContent (fst (snd (handleSendMessage env activeConversation systemInstruction txt images)))
           = conv_artifactContent activeConversation
       \<and> (parsedArtifactContent parsed = None \<longrightarrow>
            (\<exists>result. snd (generateResponse env txt (conv_artifactContent activeConversation)
                              (conv_model activeConversation) systemInstruction images) = Inr result
                  \<and> artifactContent result = conv_artifactContent activeConversation))
       \<and> (\<forall>updatedMessages result conv. trim (artifactContent result) = [] \<longrightarrow>
             conv_artifactContent (storeResponse updatedMessages result conv) = conv_artifactContent conv)"
proof -
  note reply = generateResponse_parsed [OF assms(1-5)]
  have "conv_artifactContent (fst (snd (handleSendMessage env activeConversation systemInstruction txt images)))
           = conv_artifactContent activeConversation"
    using assms(6)
    by (cases "parsedArtifactContent parsed")
       (auto simp: handleSendMessage_def reply storeResponse_artifact nullish_def Let_def split: prod.splits)
  moreover have "parsedArtifactContent parsed = None \<longrightarrow>
            (\<exists>result. snd (generateResponse env txt (conv_artifactContent activeConversation)
                              (conv_model activeConversation) systemInstruction images) = Inr result
                  \<and> artifactContent result = conv_artifactContent activeConversation)"
    by (simp add: reply nullish_def)
  ultimately show ?thesis by (simp add: storeResponse_artifact)
qed

theorem artifact_preserved_witness:
  "conv_artifactContent (fst (snd (handleSendMessage
       (envReply (js ''{}'') \<lparr> parsedChatResponse = None, parsedArtifactContent = None \<rparr>)
       conv0 (js ''Be brief.'') (js ''hello'') None))) = js ''<p>old</p>''
   \<and> conv_artifactContent (fst (snd (handleSendMessage
       (envReply (js ''{}'') \<lparr> parsedChatResponse = Some (js ''Hi.''), parsedArtifactContent = Some (js ''  '') \<rparr>)
       conv0 (js ''Be brief.'') (js ''hello'') None))) = js ''<p>old</p>''"
proof -
  let ?response = "\<lparr> resp_text = Some (js ''{}''), resp_finishReason = Some (js ''STOP'') \<rparr>"
  let ?missing = "\<lparr> parsedChatResponse = None, parsedArtifactContent = None \<rparr>"
  let ?blank = "\<lparr> parsedChatResponse = Some (js ''Hi.''), parsedArtifactContent = Some (js ''  '') \<rparr>"
  have shape: "truthy (resp_text ?response)"
    "startsWith (trim (the (resp_text ?response))) (js ''{'')"
    "endsWith (trim (the (resp_text ?response))) (js ''}'')"
    by (simp_all add: truthy_def trim_def isWhiteSpace_def js_def startsWith_def endsWith_def suffix_def)
  have call: "generateContent (envReply (js ''{}'') p)
                (chatRequest (js ''hello'') (conv_artifactContent conv0) (conv_model conv0)
                   (js ''Be brief.'') None) = Inr ?response" for p
    by (simp add: envReply_simps)
  have parse: "jsonParse (envReply (js ''{}'') p) (trim (the (resp_text ?response))) = Inr p" for p
    by (simp add: envReply_simps)
  have missing: "case parsedArtifactContent ?missing of None \<Rightarrow> True | Some a \<Rightarrow> trim a = []"
    by simp
  have blank: "case parsedArtifactContent ?blank of None \<Rightarrow> True | Some a \<Rightarrow> trim a = []"
    by (simp add: trim_def isWhiteSpace_def js_def)
  show ?thesis
    using artifact_preserved [OF call shape parse missing]
          artifact_preserved [OF call shape parse blank]
    by (simp add: conv0_def)
qed

section \<open>Properties of the orchestrator\<close>

text \<open>
  C2. A request that carries at least one image is answered by the multimodal client
  alone: the outcome and the calls are those of \<^verbatim>\<open>generateResponse\<close> on the same prompt,
  previous artifact, system instruction and images, and no reasoning provider is
  fetched.
\<close>

theorem image_requests_multimodal_only:
  assumes "images = Some (first # others)"
  shows "generateMixedResponse env prompt previousArtifact model systemInstruction
           conversationHistory extractedContent images
         = generateResponse env prompt previousArtifact (js ''gemini-1.5-flash-latest'')
             systemInstruction images
       \<and> filter isReasoningCall
            (fst (generateMixedResponse env prompt previousArtifact model systemInstruction
                    conversationHistory extractedContent images)) = []"
  using assms
  by (simp add: generateMixedResponse_def generateResponse_calls isReasoningCall_def)

theorem image_requests_multimodal_only_witness:
  "generateMixedResponse envChat (js ''what is this?'') (js ''<p>old</p>'') (js ''gemini-2.5-flash'')
       (js ''Be brief.'') [] None (Some [gifImage])
     = ([GenerateContent (chatRequest (js ''what is this?'') (js ''<p>old</p>'')
           (js ''gemini-1.5-flash-latest'') (js ''Be brief.'') (Some [gifImage]))],
        Inr \<lparr> chatResponse = js ''Done.'', artifactContent = js ''<form>...</form>'' \<rparr>)"
  using image_requests_multimodal_only [of "Some [gifImage]" gifImage "[]" envChat
          "js ''what is this?''" "js ''<p>old</p>''" "js ''gemini-2.5-flash''" "js ''Be brief.''" "[]" None]
  by (simp add: envChat_generateResponse)

lemma needsArtifact_iff:
  "needsArtifact env prompt \<longleftrightarrow> (\<exists>k\<in>set intentKeywords. str_includes (toLowerCase env prompt) k)"
  by (auto simp: needsArtifact_def intentKeywords_def)

lemma requests_differ: "deepSeekRequest env msgs \<noteq> openRouterRequest env msgs'"
proof
  assume "deepSeekRequest env msgs = openRouterRequest env msgs'"
  then have "body_model (deepSeekRequest env msgs) = body_model (openRouterRequest env msgs')"
    by simp
  then show False by (simp add: deepSeekRequest_def openRouterRequest_def js_def)
qed

lemma chatFailed_message: "\<exists>m. chatFailed error = Error (js ''DeepSeek chat failed: '' @ m)"
  by (simp add: chatFailed_def)

lemma readReply_not_ok:
  "\<not> ok r \<Longrightarrow> \<exists>m. readReply r = Inl (Error (js ''DeepSeek chat failed: '' @ m))"
  by (simp add: readReply_def chatFailed_def)

lemma readReply_ok:
  "ok r \<Longrightarrow> jsonChoices r = Inr (Some (c # cs)) \<Longrightarrow>
     readReply r = Inr \<lparr> chatResponse = c, artifactContent = [] \<rparr>"
  by (simp add: readReply_def)

lemma deepSeek_calls:
  assumes "truthy (DEEPSEEK_API_KEY env)" "truthy (OPENROUTER_API_KEY env)"
  shows "fst (generateDeepSeekResponse env prompt conversationHistory extractedContent systemInstruction)
     = (let msgs = buildMessages env prompt conversationHistory extractedContent systemInstruction
        in Fetch (deepSeekRequest env msgs)
           # (if firstFailed env msgs then [Fetch (openRouterRequest env msgs)] else []))"
  using assms
  by (auto simp: generateDeepSeekResponse_def firstFailed_def Let_def split: sum.splits)

lemma deepSeek_second:
  assumes "truthy (OPENROUTER_API_KEY env)"
      and "firstFailed env (buildMessages env prompt conversationHistory extractedContent systemInstruction)"
  shows "snd (generateDeepSeekResponse env prompt conversationHistory extractedContent systemInstruction)
     = (case fetch env (openRouterRequest env
                (buildMessages env prompt conversationHistory extractedContent systemInstruction)) of
          Inl error \<Rightarrow> Inl (chatFailed error) | Inr r \<Rightarrow> readReply r)"
  using assms
  by (auto simp: generateDeepSeekResponse_def firstFailed_def Let_def split: sum.splits)

lemma deepSeek_unconfigured:
  "\<not> truthy (DEEPSEEK_API_KEY env) \<Longrightarrow> \<not> truthy (OPENROUTER_API_KEY env) \<Longrightarrow>
     generateDeepSeekResponse env prompt conversationHistory extractedContent systemInstruction
       = ([], Inl (Error (js ''DeepSeek chat failed: Both DeepSeek and OpenRouter unavailable'')))"
  by (simp add: generateDeepSeekResponse_def chatFailed_def js_def)

lemma only_openRouter_configured:
  assumes "\<not> truthy (DEEPSEEK_API_KEY env)" and "truthy (OPENROUTER_API_KEY env)"
  shows "generateDeepSeekResponse env prompt conversationHistory extractedContent systemInstruction
     = (let msgs = buildMessages env prompt conversationHistory extractedContent systemInstruction
        in ([Fetch (openRouterRequest env msgs)],
            case fetch env (openRouterRequest env msgs) of
              Inl error \<Rightarrow> Inl (chatFailed error) | Inr r \<Rightarrow> readReply r))"
  using assms by (simp add: generateDeepSeekResponse_def Let_def)

lemma only_deepSeek_configured:
  assumes "truthy (DEEPSEEK_API_KEY env)" and "\<not> truthy (OPENROUTER_API_KEY env)"
  shows "generateDeepSeekResponse env prompt conversationHistory extractedContent systemInstruction
     = (let msgs = buildMessages env prompt conversationHistory extractedContent systemInstruction
        in ([Fetch (deepSeekRequest env msgs)],
            if firstFailed env msgs
            then Inl (chatFailed (Error (js ''Both DeepSeek and OpenRouter unavailable'')))
            else readReply (projr (fetch env (deepSeekRequest env msgs)))))"
  using assms
  by (auto simp: generateDeepSeekResponse_def firstFailed_def Let_def split: sum.splits)

lemma mixed_failure:
  assumes "snd (generateDeepSeekResponse env prompt conversationHistory extractedContent
                  (Some systemInstruction)) = Inl error"
      and "images = None \<or> images = Some []"
  shows "generateMixedResponse env prompt previousArtifact model systemInstruction
           conversationHistory extractedContent images
         = generateDeepSeekResponse env prompt conversationHistory extractedContent
             (Some systemInstruction)"
  using assms
  by (cases "generateDeepSeekResponse env prompt conversationHistory extractedContent
               (Some systemInstruction)")
     (auto simp: generateMixedResponse_def)

text \<open>
  C3. With both reasoning providers configured, a text-only request fetches DeepSeek
  first and exactly once, and OpenRouter next if and only if DeepSeek raised or answered
  with a non-success status. When DeepSeek failed and OpenRouter answers with a choice,
  the reply and the turn carry OpenRouter's text. When both failed, the reply is an
  error whose message starts with \<open>DeepSeek chat failed: \<close>, and the turn fails with it.
\<close>

theorem fallback_order:
  assumes "truthy (DEEPSEEK_API_KEY env)" and "truthy (OPENROUTER_API_KEY env)"
  shows "let msgs = buildMessages env prompt conversationHistory extractedContent (Some systemInstruction);
             reply = generateDeepSeekResponse env prompt conversationHistory extractedContent
                       (Some systemInstruction);
             turn = generateMixedResponse env prompt previousArtifact model systemInstruction
                      conversationHistory extractedContent None
         in fst reply = Fetch (deepSeekRequest env msgs)
                        # (if firstFailed env msgs then [Fetch (openRouterRequest env msgs)] else [])
          \<and> deepSeekRequest env msgs \<noteq> openRouterRequest env msgs
          \<and> (firstFailed env msgs \<longrightarrow>
               (\<forall>r c cs. fetch env (openRouterRequest env msgs) = Inr r \<and> ok r
                    \<and> jsonChoices r = Inr (Some (c # cs))
                  \<longrightarrow> snd reply = Inr \<lparr> chatResponse = c, artifactContent = [] \<rparr>
                      \<and> (\<exists>artifact. snd turn = Inr \<lparr> chatResponse = c, artifactContent = artifact \<rparr>)))
          \<and> (firstFailed env msgs \<and> secondFailed env msgs \<longrightarrow>
               (\<exists>m. snd reply = Inl (Error (js ''DeepSeek chat failed: '' @ m)) \<and> turn = reply))"
proof -
  let ?msgs = "buildMessages env prompt conversationHistory extractedContent (Some systemInstruction)"
  let ?reply = "generateDeepSeekResponse env prompt conversationHistory extractedContent
                  (Some systemInstruction)"
  let ?turn = "generateMixedResponse env prompt previousArtifact model systemInstruction
                      conversationHistory extractedContent None"
  have calls: "fst ?reply = Fetch (deepSeekRequest env ?msgs)
                 # (if firstFailed env ?msgs then [Fetch (openRouterRequest env ?msgs)] else [])"
    using deepSeek_calls [OF assms] by (simp add: Let_def)
  have success: "snd ?reply = Inr \<lparr> chatResponse = c, artifactContent = [] \<rparr>
        \<and> (\<exists>artifact. snd ?turn = Inr \<lparr> chatResponse = c, artifactContent = artifact \<rparr>)"
    if "firstFailed env ?msgs" "fetch env (openRouterRequest env ?msgs) = Inr r" "ok r"
       "jsonChoices r = Inr (Some (c # cs))" for r c cs
  proof -
    have s: "snd ?reply = Inr \<lparr> chatResponse = c, artifactContent = [] \<rparr>"
      using deepSeek_second [OF assms(2) that(1)] that(2-4) by (simp add: readReply_ok)
    then obtain calls where r: "?reply = (calls, Inr \<lparr> chatResponse = c, artifactContent = [] \<rparr>)"
      by (cases ?reply) auto
    have "\<exists>artifact. snd ?turn = Inr \<lparr> chatResponse = c, artifactContent = artifact \<rparr>"
      using r
      by (cases "generateResponse env prompt previousArtifact (js ''gemini-1.5-flash-latest'')
                   systemInstruction None")
         (auto simp: generateMixedResponse_def Let_def split: sum.splits)
    with s show ?thesis by simp
  qed
  have failure: "\<exists>m. snd ?reply = Inl (Error (js ''DeepSeek chat failed: '' @ m)) \<and> ?turn = ?reply"
    if "firstFailed env ?msgs" "secondFailed env ?msgs"
  proof -
    have "\<exists>m. snd ?reply = Inl (Error (js ''DeepSeek chat failed: '' @ m))"
      using deepSeek_second [OF assms(2) that(1)] that(2) chatFailed_message readReply_not_ok
      by (auto simp: secondFailed_def split: sum.splits)
    then obtain m where m: "snd ?reply = Inl (Error (js ''DeepSeek chat failed: '' @ m))" by blast
    have "?turn = ?reply" by (rule mixed_failure [OF m]) simp
    with m show ?thesis by blast
  qed
  show ?thesis
    unfolding Let_def using calls requests_differ success failure by blast
qed

theorem fallback_order_witness:
  "fst (generateDeepSeekResponse envChat (js ''hello'') [] None (Some (js ''Be brief.'')))
     = [Fetch (deepSeekRequest envChat (buildMessages envChat (js ''hello'') [] None (Some (js ''Be brief.'')))),
        Fetch (openRouterRequest envChat (buildMessages envChat (js ''hello'') [] None (Some (js ''Be brief.''))))]
   \<and> snd (generateDeepSeekResponse envChat (js ''hello'') [] None (Some (js ''Be brief.'')))
     = Inr \<lparr> chatResponse = js ''Here'' @ [0x27] @ js ''s a login form.'', artifactContent = [] \<rparr>"
proof -
  let ?msgs = "buildMessages envChat (js ''hello'') [] None (Some (js ''Be brief.''))"
  have keys: "truthy (DEEPSEEK_API_KEY envChat)" "truthy (OPENROUTER_API_KEY envChat)"
    by (simp_all add: envChat_simps truthy_def js_def)
  have first: "firstFailed envChat ?msgs"
    by (simp add: firstFailed_def envChat_simps deepSeekRequest_def)
  have second: "fetch envChat (openRouterRequest envChat ?msgs)
                  = Inr \<lparr> ok = True, status = 200,
                          jsonChoices = Inr (Some [js ''Here'' @ [0x27] @ js ''s a login form.'']),
                          jsonErrorMessage = None \<rparr>"
    by (simp add: envChat_simps openRouterRequest_def js_def)
  show ?thesis
    using fallback_order [OF keys, of "js ''hello''" "[]" None "js ''Be brief.''" "[]" "[]"]
          first second
    by (simp add: Let_def)
qed

text \<open>
  C4. For a text-only request whose lower-cased prompt contains one of the intent
  keywords, once the reasoning provider has replied, exactly one further call goes to
  the multimodal provider, with the same prompt and previous artifact. If it succeeds,
  the turn has the reasoning provider's chat text and the multimodal provider's
  artifact; if it throws, the turn is the reasoning provider's reply and does not fail.
\<close>

theorem artifact_merge:
  assumes "images = None \<or> images = Some []"
      and "snd (generateDeepSeekResponse env prompt conversationHistory extractedContent
                 (Some systemInstruction)) = Inr deepSeekResponse"
      and "\<exists>k\<in>set intentKeywords. str_includes (toLowerCase env prompt) k"
  shows "let mixed = generateMixedResponse env prompt previousArtifact model systemInstruction
                       conversationHistory extractedContent images;
             gemini = generateResponse env prompt previousArtifact (js ''gemini-1.5-flash-latest'')
                        systemInstruction images
         in fst mixed = fst (generateDeepSeekResponse env prompt conversationHistory
                               extractedContent (Some systemInstruction))
                        @ [GenerateContent (chatRequest prompt previousArtifact
                             (js ''gemini-1.5-flash-latest'') systemInstruction images)]
          \<and> (\<forall>geminiResult. snd gemini = Inr geminiResult \<longrightarrow>
                 snd mixed = Inr \<lparr> chatResponse = chatResponse deepSeekResponse,
                                    artifactContent = artifactContent geminiResult \<rparr>)
          \<and> (\<forall>error. snd gemini = Inl error \<longrightarrow> snd mixed = Inr deepSeekResponse)"
proof -
  obtain calls where ds: "generateDeepSeekResponse env prompt conversationHistory extractedContent
                 (Some systemInstruction) = (calls, Inr deepSeekResponse)"
    using assms(2)
    by (cases "generateDeepSeekResponse env prompt conversationHistory extractedContent
                 (Some systemInstruction)") auto
  obtain calls2 g where gm: "generateResponse env prompt previousArtifact (js ''gemini-1.5-flash-latest'')
                        systemInstruction images = (calls2, g)"
    by (cases "generateResponse env prompt previousArtifact (js ''gemini-1.5-flash-latest'')
                        systemInstruction images") auto
  have c2: "calls2 = [GenerateContent (chatRequest prompt previousArtifact
                             (js ''gemini-1.5-flash-latest'') systemInstruction images)]"
    using generateResponse_calls [of env prompt previousArtifact "js ''gemini-1.5-flash-latest''"
             systemInstruction images] gm
    by simp
  have need: "needsArtifact env prompt" using assms(3) by (simp add: needsArtifact_iff)
  show ?thesis
    using assms(1) ds gm c2 need
    by (cases g) (auto simp: generateMixedResponse_def Let_def)
qed

theorem artifact_merge_witness:
  "snd (generateMixedResponse envChat (js ''create a login form'') (js ''<!-- empty -->'')
          (js ''gemini-2.5-flash'') (js ''Be brief.'') [] None None)
     = Inr \<lparr> chatResponse = js ''Here'' @ [0x27] @ js ''s a login form.'',
             artifactContent = js ''<form>...</form>'' \<rparr>
   \<and> snd (generateMixedResponse (envChat \<lparr> generateContent := (\<lambda>_. Inl (Error (js ''quota''))) \<rparr>)
          (js ''create a login form'') (js ''<!-- empty -->'')
          (js ''gemini-2.5-flash'') (js ''Be brief.'') [] None None)
     = Inr \<lparr> chatResponse = js ''Here'' @ [0x27] @ js ''s a login form.'', artifactContent = [] \<rparr>"
proof -
  let ?down = "envChat \<lparr> generateContent := (\<lambda>_. Inl (Error (js ''quota''))) \<rparr>"
  let ?reply = "\<lparr> chatResponse = js ''Here'' @ [0x27] @ js ''s a login form.'', artifactContent = [] \<rparr>"
  have text_only: "(None :: inline_image list option) = None \<or> None = Some []" by simp
  have ds: "snd (generateDeepSeekResponse envChat (js ''create a login form'') [] None
                   (Some (js ''Be brief.''))) = Inr ?reply"
    by (simp add: generateDeepSeekResponse_def envChat_simps truthy_def deepSeekRequest_def
        openRouterRequest_def readReply_def js_def Let_def)
  have ds': "snd (generateDeepSeekResponse ?down (js ''create a login form'') [] None
                   (Some (js ''Be brief.''))) = Inr ?reply"
    by (simp add: generateDeepSeekResponse_def envChat_def env0_def truthy_def deepSeekRequest_def
        openRouterRequest_def readReply_def js_def Let_def)
  have keyword: "\<exists>k\<in>set intentKeywords. str_includes (toLowerCase envChat (js ''create a login form'')) k"
    by (simp add: intentKeywords_def envChat_simps str_includes_def js_def asciiLowerCase_def)
  have keyword': "\<exists>k\<in>set intentKeywords. str_includes (toLowerCase ?down (js ''create a login form'')) k"
    by (simp add: intentKeywords_def envChat_def env0_def str_includes_def js_def asciiLowerCase_def)
  have failing: "snd (generateResponse ?down (js ''create a login form'') (js ''<!-- empty -->'')
                   (js ''gemini-1.5-flash-latest'') (js ''Be brief.'') None)
                 = Inl (handleApiError ?down (Error (js ''quota'')) (js ''Chat Response''))"
    by (simp add: generateResponse_def Let_def)
  show ?thesis
    using artifact_merge [OF text_only ds keyword, of "js ''<!-- empty -->''" "js ''gemini-2.5-flash''"]
          artifact_merge [OF text_only ds' keyword', of "js ''<!-- empty -->''" "js ''gemini-2.5-flash''"]
          failing
    by (simp add: Let_def envChat_generateResponse)
qed

section \<open>Properties of the title fallback\<close>

lemma str_split_nonempty: "str_split sep s \<noteq> []"
  by (induction s) (auto split: list.splits)

lemma str_join_Cons: "ws \<noteq> [] \<Longrightarrow> str_join sep (w # ws) = w @ sep @ str_join sep ws"
  by (cases ws) auto

lemma str_join_Cons_Cons: "str_join sep ((c # w) # ws) = c # str_join sep (w # ws)"
  by (cases ws) auto

lemma str_join_split: "str_join [sep] (str_split sep s) = s"
proof (induction s)
  case Nil
  show ?case by simp
next
  case (Cons c cs)
  show ?case
  proof (cases "c = sep")
    case True
    then show ?thesis using Cons by (simp add: str_join_Cons str_split_nonempty)
  next
    case False
    obtain w ws where "str_split sep cs = w # ws"
      using str_split_nonempty [of sep cs] by (cases "str_split sep cs") auto
    then show ?thesis using False Cons by (simp add: str_join_Cons_Cons)
  qed
qed

lemma str_split_words: "w \<in> set (str_split sep s) \<Longrightarrow> sep \<notin> set w"
proof (induction s arbitrary: w)
  case Nil
  then show ?case by simp
next
  case (Cons c cs)
  then show ?case
    by (cases "str_split sep cs") (auto split: if_splits)
qed

text \<open>
  C5, as the code has it. When the title call throws, the title is the first five of
  the prompt's space-separated words joined by spaces and followed by an ellipsis if
  the prompt has more than five such words; otherwise it is the prompt itself, with no
  ellipsis. The words are the segments between single spaces: joined by spaces they
  give the prompt back, and none contains a space.
\<close>

theorem title_fallback:
  assumes "generateContent env (titleRequest prompt img) = Inl error"
  shows "snd (generateTitleFromContent env prompt img) =
           (if length (str_split 0x20 prompt) > 5
            then str_join (js '' '') (take 5 (str_split 0x20 prompt)) @ js ''...''
            else prompt)
       \<and> str_join (js '' '') (str_split 0x20 prompt) = prompt
       \<and> (\<forall>w\<in>set (str_split 0x20 prompt). 0x20 \<notin> set w)"
proof -
  have "js '' '' = [0x20]" by (simp add: js_def)
  then have "str_join (js '' '') (str_split 0x20 prompt) = prompt"
    by (simp add: str_join_split)
  then show ?thesis
    using assms str_split_words [of _ "0x20" prompt]
    by (simp add: generateTitleFromContent_def slice0_def Let_def)
qed

theorem title_fallback_witness:
  "snd (generateTitleFromContent env0 (js ''one two three four five six seven'') None)
     = js ''one two three four five...''
   \<and> snd (generateTitleFromContent env0 (js ''fix it'') None) = js ''fix it''"
proof -
  have down: "generateContent env0 (titleRequest p None) = Inl ThrownOther" for p
    by (simp add: env0_def)
  show ?thesis
    using title_fallback [OF down, of "js ''one two three four five six seven''"]
          title_fallback [OF down, of "js ''fix it''"]
    by (simp add: js_def)
qed

text \<open>
  A prompt of two words: the provider throws and the title is the prompt, not its
  first five words followed by an ellipsis.
\<close>

theorem title_fallback_counterexample:
  "generateContent env0 (titleRequest (js ''fix it'') None) = Inl ThrownOther
   \<and> snd (generateTitleFromContent env0 (js ''fix it'') None) = js ''fix it''
   \<and> snd (generateTitleFromContent env0 (js ''fix it'') None)
       \<noteq> str_join (js '' '') (slice0 5 (str_split 0x20 (js ''fix it''))) @ js ''...''"
  by (simp add: generateTitleFromContent_def env0_def js_def slice0_def Let_def)

section \<open>Properties of the image normalizers\<close>

lemma mathRound_le: "x \<le> of_nat n \<Longrightarrow> mathRound x \<le> n"
proof -
  assume "x \<le> of_nat n"
  then have "x + 1 / 2 < of_int (int n) + 1" by simp
  then have "\<lfloor>x + 1 / 2\<rfloor> \<le> int n" by (simp only: floor_le_iff)
  then show ?thesis by (simp add: mathRound_def)
qed

lemma mathRound_near: "0 \<le> x \<Longrightarrow> \<bar>of_nat (mathRound x) - x\<bar> \<le> 1 / 2"
proof -
  assume nonneg: "0 \<le> x"
  then have "0 \<le> \<lfloor>x + 1 / 2\<rfloor>" by simp
  then have "(of_nat (mathRound x) :: rat) = of_int \<lfloor>x + 1 / 2\<rfloor>"
    by (simp add: mathRound_def)
  moreover have "of_int \<lfloor>x + 1 / 2\<rfloor> \<le> x + 1 / 2" "x + 1 / 2 < of_int \<lfloor>x + 1 / 2\<rfloor> + 1"
    by linarith+
  ultimately show ?thesis by linarith
qed

lemma ocrScale_bounds:
  "0 \<le> ocrScale 2048 2048 w h" "ocrScale 2048 2048 w h \<le> 2"
  "of_nat w * ocrScale 2048 2048 w h \<le> 2048"
  "of_nat h * ocrScale 2048 2048 w h \<le> 2048"
proof -
  show "0 \<le> ocrScale 2048 2048 w h" "ocrScale 2048 2048 w h \<le> 2"
    by (auto simp: ocrScale_def minWith_def jsQuotient_def min_def)
  show "of_nat w * ocrScale 2048 2048 w h \<le> 2048"
  proof (cases "w = 0")
    case True then show ?thesis by simp
  next
    case False
    then have "ocrScale 2048 2048 w h \<le> 2048 / of_nat w"
      by (auto simp: ocrScale_def minWith_def jsQuotient_def min_def)
    then show ?thesis using False by (simp add: pos_le_divide_eq mult.commute)
  qed
  show "of_nat h * ocrScale 2048 2048 w h \<le> 2048"
  proof (cases "h = 0")
    case True then show ?thesis by simp
  next
    case False
    then have "ocrScale 2048 2048 w h \<le> 2048 / of_nat h"
      by (auto simp: ocrScale_def minWith_def jsQuotient_def min_def)
    then show ?thesis using False by (simp add: pos_le_divide_eq mult.commute)
  qed
qed

lemma ocrScale_positive_sizes:
  "0 < w \<Longrightarrow> 0 < h \<Longrightarrow>
     ocrScale 2048 2048 w h = min (2048 / of_nat w) (min (2048 / of_nat h) 2)"
  by (simp add: ocrScale_def minWith_def jsQuotient_def)

lemma ocrCanvasSize_bounds:
  "fst (ocrCanvasSize w h) \<le> 2048" "snd (ocrCanvasSize w h) \<le> 2048"
  "fst (ocrCanvasSize w h) \<le> 2 * w" "snd (ocrCanvasSize w h) \<le> 2 * h"
proof -
  have twice: "of_nat n * ocrScale 2048 2048 w h \<le> of_nat (2 * n)" for n
  proof -
    have "(of_nat n :: rat) * ocrScale 2048 2048 w h \<le> of_nat n * 2"
      by (rule mult_left_mono [OF ocrScale_bounds(2)]) simp
    then show ?thesis by (simp add: mult.commute)
  qed
  note w2 = twice [of w] and h2 = twice [of h]
  have wm: "of_nat w * ocrScale 2048 2048 w h \<le> of_nat 2048"
    using ocrScale_bounds(3) by simp
  have hm: "of_nat h * ocrScale 2048 2048 w h \<le> of_nat 2048"
    using ocrScale_bounds(4) by simp
  show "fst (ocrCanvasSize w h) \<le> 2048" using mathRound_le [OF wm] by (simp add: ocrCanvasSize_def Let_def)
  show "snd (ocrCanvasSize w h) \<le> 2048" using mathRound_le [OF hm] by (simp add: ocrCanvasSize_def Let_def)
  show "fst (ocrCanvasSize w h) \<le> 2 * w" using mathRound_le [OF w2] by (simp add: ocrCanvasSize_def Let_def)
  show "snd (ocrCanvasSize w h) \<le> 2 * h" using mathRound_le [OF h2] by (simp add: ocrCanvasSize_def Let_def)
qed

lemma enhance_size:
  assumes "enhanceImageForOcr br imageDataUrl = Inr out"
  shows "\<exists>cv. out = toDataURL br cv (js ''image/png'') (95 / 100)
            \<and> cwidth cv \<le> 2048 \<and> cheight cv \<le> 2048"
proof -
  obtain width height where loaded: "loadImageUrl br imageDataUrl = Inr (width, height)"
    using assms by (auto simp: enhanceImageForOcr_def split: sum.splits)
  obtain w h where size: "ocrCanvasSize width height = (w, h)" by (cases "ocrCanvasSize width height")
  have "w \<le> 2048" "h \<le> 2048"
    using ocrCanvasSize_bounds(1,2) [of width height] size by simp_all
  moreover have "out = toDataURL br \<lparr> cwidth = w, cheight = h,
                     cpicture = Enhanced (Scaled (LoadedUrl imageDataUrl) w h) \<rparr> (js ''image/png'') (95 / 100)"
    using assms loaded size by (auto simp: enhanceImageForOcr_def split: if_splits)
  ultimately show ?thesis by (intro exI [of _ "\<lparr> cwidth = w, cheight = h,
                     cpicture = Enhanced (Scaled (LoadedUrl imageDataUrl) w h) \<rparr>"]) simp
qed

lemma finalCanvas_small:
  "cwidth cv \<le> 1024 \<Longrightarrow> cheight cv \<le> 1024 \<Longrightarrow> finalCanvas br cv = cv"
  by (simp add: finalCanvas_def MAX_IMAGE_DIMENSION_def Let_def)

lemma finalCanvas_wide:
  assumes "cwidth cv > 1024 \<or> cheight cv > 1024" and "cwidth cv > cheight cv"
      and "getContext2d br 1024 (mathRound (of_nat (cheight cv * 1024) / of_nat (cwidth cv)))"
  shows "finalCanvas br cv =
           \<lparr> cwidth = 1024, cheight = mathRound (of_nat (cheight cv * 1024) / of_nat (cwidth cv)),
             cpicture = Scaled (cpicture cv) 1024
                          (mathRound (of_nat (cheight cv * 1024) / of_nat (cwidth cv))) \<rparr>"
  using assms by (auto simp: finalCanvas_def MAX_IMAGE_DIMENSION_def Let_def)

lemma finalCanvas_tall:
  assumes "cwidth cv > 1024 \<or> cheight cv > 1024" and "\<not> cwidth cv > cheight cv"
      and "getContext2d br (mathRound (of_nat (cwidth cv * 1024) / of_nat (cheight cv))) 1024"
  shows "finalCanvas br cv =
           \<lparr> cwidth = mathRound (of_nat (cwidth cv * 1024) / of_nat (cheight cv)), cheight = 1024,
             cpicture = Scaled (cpicture cv)
                          (mathRound (of_nat (cwidth cv * 1024) / of_nat (cheight cv))) 1024 \<rparr>"
  using assms by (auto simp: finalCanvas_def MAX_IMAGE_DIMENSION_def Let_def)

lemma wide_bound: "h < w \<Longrightarrow> mathRound (of_nat (h * 1024) / of_nat w) \<le> 1024"
proof (rule mathRound_le)
  assume "h < w"
  then have "(of_nat (h * 1024) :: rat) \<le> of_nat 1024 * of_nat w"
    unfolding of_nat_mult [symmetric] of_nat_le_iff by simp
  moreover have "(0::rat) < of_nat w" using \<open>h < w\<close> by simp
  ultimately show "(of_nat (h * 1024) :: rat) / of_nat w \<le> of_nat 1024"
    by (simp only: pos_divide_le_eq)
qed

lemma tall_bound: "w \<le> h \<Longrightarrow> 0 < h \<Longrightarrow> mathRound (of_nat (w * 1024) / of_nat h) \<le> 1024"
proof (rule mathRound_le)
  assume "w \<le> h" "0 < h"
  then have "(of_nat (w * 1024) :: rat) \<le> of_nat 1024 * of_nat h"
    unfolding of_nat_mult [symmetric] of_nat_le_iff by simp
  moreover have "(0::rat) < of_nat h" using \<open>0 < h\<close> by simp
  ultimately show "(of_nat (w * 1024) :: rat) / of_nat h \<le> of_nat 1024"
    by (simp only: pos_divide_le_eq)
qed

lemma finalCanvas_bounds:
  assumes ctx: "\<And>w h. getContext2d br w h"
  shows "cwidth (finalCanvas br cv) \<le> 1024 \<and> cheight (finalCanvas br cv) \<le> 1024"
proof (cases "cwidth cv > 1024 \<or> cheight cv > 1024")
  case False
  then show ?thesis by (simp add: finalCanvas_small)
next
  case big: True
  show ?thesis
  proof (cases "cwidth cv > cheight cv")
    case True
    then show ?thesis using finalCanvas_wide [OF big True ctx] wide_bound by simp
  next
    case False
    with big have "0 < cheight cv" "cwidth cv \<le> cheight cv" by auto
    then show ?thesis using finalCanvas_tall [OF big False ctx] tall_bound by simp
  qed
qed

lemma finalCanvas_aspect:
  assumes ctx: "\<And>w h. getContext2d br w h"
      and big: "cwidth cv > 1024 \<or> cheight cv > 1024"
  shows "if cwidth cv > cheight cv
         then cwidth (finalCanvas br cv) = 1024
              \<and> \<bar>of_nat (cheight (finalCanvas br cv))
                  - of_nat (cheight cv * 1024) / of_nat (cwidth cv)\<bar> \<le> (1 / 2 :: rat)
         else cheight (finalCanvas br cv) = 1024
              \<and> \<bar>of_nat (cwidth (finalCanvas br cv))
                  - of_nat (cwidth cv * 1024) / of_nat (cheight cv)\<bar> \<le> (1 / 2 :: rat)"
proof (cases "cwidth cv > cheight cv")
  case True
  have "(0::rat) \<le> of_nat (cheight cv * 1024) / of_nat (cwidth cv)" by simp
  from mathRound_near [OF this] show ?thesis
    using True finalCanvas_wide [OF big True ctx] by simp
next
  case False
  have "(0::rat) \<le> of_nat (cwidth cv * 1024) / of_nat (cheight cv)" by simp
  from mathRound_near [OF this] show ?thesis
    using False finalCanvas_tall [OF big False ctx] by simp
qed

lemma str_split_no_sep: "sep \<notin> set s \<Longrightarrow> str_split sep s = [s]"
  by (induction s) auto

lemma str_split_append: "sep \<notin> set h \<Longrightarrow> str_split sep (h @ sep # t) = h # str_split sep t"
  by (induction h) auto

lemma truthyE:
  assumes "truthy v"
  obtains s where "v = Some s" "s \<noteq> []"
  using assms by (cases v) (auto simp: truthy_def)

lemma processAndEncode_Inr:
  assumes "processAndEncode br cv = Inr out"
  shows "mimeType out = js ''image/jpeg''
       \<and> Some (data out) = second (str_split 0x2C (toDataURL br (finalCanvas br cv) (js ''image/jpeg'') (8 / 10)))"
proof -
  let ?payload = "second (str_split 0x2C (toDataURL br (finalCanvas br cv) (js ''image/jpeg'') (8 / 10)))"
  have t: "truthy ?payload"
    using assms by (simp add: processAndEncode_def Let_def split: if_splits)
  then obtain s where s: "?payload = Some s" by (rule truthyE)
  have "out = \<lparr> mimeType = js ''image/jpeg'', data = the ?payload \<rparr>"
    using assms t by (simp add: processAndEncode_def Let_def)
  then show ?thesis using s by simp
qed

lemma fileToBase64_small_jpeg:
  assumes "passesThrough env br f"
  shows "fileToBase64 env br f =
           (case readAsDataURL br f of
              Inl error \<Rightarrow> Inl error
            | Inr result \<Rightarrow>
                if truthy (matchMimeType (hd (str_split 0x2C result)))
                   \<and> truthy (second (str_split 0x2C result))
                then Inr \<lparr> mimeType = the (matchMimeType (hd (str_split 0x2C result))),
                           data = the (second (str_split 0x2C result)) \<rparr>
                else Inl (Error (js ''Could not parse file data URL.'')))"
proof -
  from assms have nt: "\<not> isTiff env f" by (simp add: passesThrough_def)
  from assms obtain w h where l: "loadImageFile br f = Some (w, h)"
    and small: "w \<le> MAX_IMAGE_DIMENSION \<and> h \<le> MAX_IMAGE_DIMENSION \<and> file_type f = js ''image/jpeg''"
    by (auto simp: passesThrough_def split: option.splits)
  show ?thesis
    unfolding fileToBase64_def using nt l small by (simp add: Let_def split: sum.splits)
qed

lemma fileToBase64_passThrough:
  assumes "passesThrough env br f" and "fileToBase64 env br f = Inr out"
  shows "\<exists>r. readAsDataURL br f = Inr r
            \<and> Some (data out) = second (str_split 0x2C r)
            \<and> Some (mimeType out) = matchMimeType (hd (str_split 0x2C r))"
proof (cases "readAsDataURL br f")
  case (Inl error)
  then show ?thesis using assms by (simp add: fileToBase64_small_jpeg)
next
  case (Inr r)
  have both: "truthy (matchMimeType (hd (str_split 0x2C r))) \<and> truthy (second (str_split 0x2C r))"
    using assms Inr by (simp add: fileToBase64_small_jpeg split: if_splits)
  then obtain m d where m: "matchMimeType (hd (str_split 0x2C r)) = Some m"
      and d: "second (str_split 0x2C r) = Some d"
    by (auto elim!: truthyE)
  have "out = \<lparr> mimeType = m, data = d \<rparr>"
    using assms Inr both m d by (simp add: fileToBase64_small_jpeg)
  then show ?thesis using Inr m d by simp
qed

lemma fileToBase64_canvas:
  assumes "\<not> passesThrough env br f" and "fileToBase64 env br f = Inr out"
  shows "\<exists>cv. processAndEncode br cv = Inr out"
proof (cases "isTiff env f")
  case True
  then have eq: "fileToBase64 env br f =
     (case readAsArrayBuffer br f of
           Inl error \<Rightarrow> Inl error
         | Inr None \<Rightarrow> Inl (Error (js ''Failed to read TIFF file into buffer.''))
         | Inr (Some buffer) \<Rightarrow>
             (case tiffToCanvas br buffer of
                None \<Rightarrow> Inl (Error (js ''An error occurred while converting the TIFF file.''))
              | Some None \<Rightarrow> Inl (Error (js ''Failed to convert TIFF to canvas.''))
              | Some (Some (w, h)) \<Rightarrow>
                  processAndEncode br \<lparr> cwidth = w, cheight = h, cpicture = TiffPage buffer \<rparr>))"
    by (simp add: fileToBase64_def)
  from assms(2) obtain buffer where b: "readAsArrayBuffer br f = Inr (Some buffer)"
    by (auto simp: eq split: sum.splits option.splits)
  from assms(2) obtain w h where c: "tiffToCanvas br buffer = Some (Some (w, h))"
    by (auto simp: eq b split: option.splits)
  from assms(2) have "processAndEncode br \<lparr> cwidth = w, cheight = h, cpicture = TiffPage buffer \<rparr> = Inr out"
    by (simp add: eq b c)
  then show ?thesis by blast
next
  case False
  from assms(2) False obtain w h where l: "loadImageFile br f = Some (w, h)"
    by (auto simp: fileToBase64_def split: option.splits)
  have big: "\<not> (w \<le> MAX_IMAGE_DIMENSION \<and> h \<le> MAX_IMAGE_DIMENSION \<and> file_type f = js ''image/jpeg'')"
    using assms(1) False l by (simp add: passesThrough_def)
  have "fileToBase64 env br f =
          (if \<not> getContext2d br w h then Inl (Error (js ''Could not get canvas context.''))
           else processAndEncode br \<lparr> cwidth = w, cheight = h, cpicture = LoadedFile f \<rparr>)"
    unfolding fileToBase64_def using False l by (simp add: if_not_P [OF big])
  with assms(2) have "processAndEncode br \<lparr> cwidth = w, cheight = h, cpicture = LoadedFile f \<rparr> = Inr out"
    by (simp split: if_splits)
  then show ?thesis by blast
qed

lemma jpeg_header:
  "matchMimeType (js ''data:image/jpeg;base64'') = Some (js ''image/jpeg'')"
  by (simp add: js_def)

lemma jpeg_url_split:
  assumes "0x2C \<notin> set payload"
  shows "str_split 0x2C (js ''data:image/jpeg;base64,'' @ payload)
           = [js ''data:image/jpeg;base64'', payload]"
proof -
  have "js ''data:image/jpeg;base64,'' @ payload = js ''data:image/jpeg;base64'' @ 0x2C # payload"
    by (simp add: js_def)
  moreover have "0x2C \<notin> set (js ''data:image/jpeg;base64'')"
    by (simp add: js_def)
  ultimately show ?thesis using assms by (simp add: str_split_append str_split_no_sep)
qed

lemma fileToBase64_unmodified:
  assumes "passesThrough env br f"
      and "readAsDataURL br f = Inr (js ''data:image/jpeg;base64,'' @ payload)"
      and "payload \<noteq> []" and "0x2C \<notin> set payload"
  shows "fileToBase64 env br f = Inr \<lparr> mimeType = js ''image/jpeg'', data = payload \<rparr>"
proof -
  have "truthy (Some (js ''image/jpeg''))" "truthy (Some payload)"
    using assms(3) by (simp_all add: truthy_def js_def)
  then show ?thesis
    by (simp add: fileToBase64_small_jpeg [OF assms(1)] assms(2) jpeg_url_split [OF assms(4)]
          jpeg_header second_def)
qed

text \<open>
  C9, as the code has it, for a browser that hands out a 2D context for every canvas.
  General mode: a file that resolves either took the pass-through branch (type
  \<open>image/jpeg\<close>, both sides at most 1024, not routed to the TIFF decoder by its type or
  name), and then the result is cut out of the file's own data URL, unchanged for a
  well-formed one; or it is the JPEG encoding of a canvas with both sides at most 1024,
  the longer side of an oversized canvas being set to 1024 and the other rounded from
  the same ratio. OCR mode: the scale is the minimum of 2048/width, 2048/height and 2,
  the canvas has both sides at most 2048 and at most twice the original.
\<close>

theorem normalizer_sizes:
  assumes "\<And>w h. getContext2d br w h"
  shows "(\<forall>out. fileToBase64 env br f = Inr out \<longrightarrow>
           (if passesThrough env br f
            then (\<exists>r. readAsDataURL br f = Inr r
                     \<and> Some (data out) = second (str_split 0x2C r)
                     \<and> Some (mimeType out) = matchMimeType (hd (str_split 0x2C r)))
            else mimeType out = js ''image/jpeg''
                 \<and> (\<exists>cv. cwidth cv \<le> 1024 \<and> cheight cv \<le> 1024
                        \<and> Some (data out)
                            = second (str_split 0x2C (toDataURL br cv (js ''image/jpeg'') (8 / 10))))))
       \<and> (\<forall>payload. passesThrough env br f
             \<and> readAsDataURL br f = Inr (js ''data:image/jpeg;base64,'' @ payload)
             \<and> payload \<noteq> [] \<and> 0x2C \<notin> set payload
            \<longrightarrow> fileToBase64 env br f = Inr \<lparr> mimeType = js ''image/jpeg'', data = payload \<rparr>)
       \<and> (\<forall>cv. cwidth (finalCanvas br cv) \<le> 1024 \<and> cheight (finalCanvas br cv) \<le> 1024)
       \<and> (\<forall>cv. cwidth cv > 1024 \<or> cheight cv > 1024 \<longrightarrow>
             (if cwidth cv > cheight cv
              then cwidth (finalCanvas br cv) = 1024
                   \<and> \<bar>of_nat (cheight (finalCanvas br cv))
                       - of_nat (cheight cv * 1024) / of_nat (cwidth cv)\<bar> \<le> (1 / 2 :: rat)
              else cheight (finalCanvas br cv) = 1024
                   \<and> \<bar>of_nat (cwidth (finalCanvas br cv))
                       - of_nat (cwidth cv * 1024) / of_nat (cheight cv)\<bar> \<le> (1 / 2 :: rat)))
       \<and> (\<forall>w h. fst (ocrCanvasSize w h) \<le> 2048 \<and> snd (ocrCanvasSize w h) \<le> 2048
                \<and> fst (ocrCanvasSize w h) \<le> 2 * w \<and> snd (ocrCanvasSize w h) \<le> 2 * h)
       \<and> (\<forall>w h. 0 < w \<and> 0 < h \<longrightarrow>
             ocrScale 2048 2048 w h = min (2048 / of_nat w) (min (2048 / of_nat h) 2))
       \<and> (\<forall>imageDataUrl out. enhanceImageForOcr br imageDataUrl = Inr out \<longrightarrow>
             (\<exists>cv. out = toDataURL br cv (js ''image/png'') (95 / 100)
                  \<and> cwidth cv \<le> 2048 \<and> cheight cv \<le> 2048))"
proof -
  have general: "if passesThrough env br f
            then (\<exists>r. readAsDataURL br f = Inr r
                     \<and> Some (data out) = second (str_split 0x2C r)
                     \<and> Some (mimeType out) = matchMimeType (hd (str_split 0x2C r)))
            else mimeType out = js ''image/jpeg''
                 \<and> (\<exists>cv. cwidth cv \<le> 1024 \<and> cheight cv \<le> 1024
                        \<and> Some (data out)
                            = second (str_split 0x2C (toDataURL br cv (js ''image/jpeg'') (8 / 10))))"
    if resolved: "fileToBase64 env br f = Inr out" for out
  proof (cases "passesThrough env br f")
    case True
    then show ?thesis using fileToBase64_passThrough [OF True resolved] by simp
  next
    case False
    obtain cv where "processAndEncode br cv = Inr out"
      using fileToBase64_canvas [OF False resolved] by blast
    from processAndEncode_Inr [OF this] finalCanvas_bounds [OF assms, of cv]
    show ?thesis using False by auto
  qed
  show ?thesis
    using general fileToBase64_unmodified [of env br f] finalCanvas_bounds [OF assms]
      finalCanvas_aspect [OF assms] ocrCanvasSize_bounds ocrScale_positive_sizes enhance_size [of br]
    by (intro conjI allI impI) blast+
qed

lemma browserOk_simps:
  "loadImageUrl browserOk u = Inr (800, 600)"
  "loadImageFile browserOk f = (if file_type f = js ''image/jpeg'' then Some (800, 600) else Some (2000, 1000))"
  "getContext2d browserOk w h"
  "toDataURL browserOk cv mime q = js ''data:'' @ mime @ js '';base64,'' @ sizePayload cv"
  "readAsDataURL browserOk f = Inr (js ''data:'' @ file_type f @ js '';base64,'' @ js ''/9j/4AAQSkZJRg=='')"
  by (simp_all add: browserOk_def)

lemma browserNoResize_simps:
  "loadImageFile browserNoResize f = (if file_type f = js ''image/jpeg'' then Some (800, 600) else Some (2000, 1000))"
  "getContext2d browserNoResize w h \<longleftrightarrow> \<not> (w = 1024 \<and> h = 512)"
  "toDataURL browserNoResize cv mime q = js ''data:'' @ mime @ js '';base64,'' @ sizePayload cv"
  by (simp_all add: browserNoResize_def browserOk_def)

lemma mathRound_of_nat: "mathRound (of_nat n) = n"
proof -
  have "\<lfloor>(of_nat n :: rat) + 1 / 2\<rfloor> = int n" by linarith
  then show ?thesis by (simp add: mathRound_def)
qed

lemma mathRound_numeral: "mathRound (numeral k) = numeral k"
  using mathRound_of_nat [of "numeral k"] by simp

lemma half_size: "mathRound (of_nat (1000 * 1024) / of_nat 2000) = 512"
proof -
  have "(of_nat (1000 * 1024) :: rat) / of_nat 2000 = of_nat 512" by simp
  then show ?thesis by (simp only: mathRound_of_nat)
qed

lemma pngFile_not_tiff: "\<not> isTiff env0 pngFile" "\<not> passesThrough env0 br pngFile"
  by (simp_all add: isTiff_def passesThrough_def pngFile_def env0_def endsWith_def js_def
        asciiLowerCase_def suffix_to_prefix split: option.splits)

lemma jpegFile_passes: "passesThrough env0 browserOk jpegFile"
  by (simp add: isTiff_def passesThrough_def jpegFile_def env0_def endsWith_def js_def
        asciiLowerCase_def suffix_to_prefix browserOk_simps MAX_IMAGE_DIMENSION_def)

lemma size_payloads:
  "sizePayload \<lparr> cwidth = 1024, cheight = 512, cpicture = p \<rparr> = js ''1024x512''"
  "sizePayload \<lparr> cwidth = 2000, cheight = 1000, cpicture = p \<rparr> = js ''2000x1000''"
  by (simp_all add: sizePayload_def showNat.simps js_def)

lemma fileToBase64_large:
  assumes "\<not> isTiff env f" and "loadImageFile br f = Some (w, h)"
      and "\<not> (w \<le> MAX_IMAGE_DIMENSION \<and> h \<le> MAX_IMAGE_DIMENSION \<and> file_type f = js ''image/jpeg'')"
      and "getContext2d br w h"
  shows "fileToBase64 env br f
           = processAndEncode br \<lparr> cwidth = w, cheight = h, cpicture = LoadedFile f \<rparr>"
  unfolding fileToBase64_def using assms(1,2,4) by (simp add: if_not_P [OF assms(3)])

lemma processAndEncode_jpeg:
  assumes "toDataURL br (finalCanvas br cv) (js ''image/jpeg'') (8 / 10)
             = js ''data:image/jpeg;base64,'' @ payload"
      and "payload \<noteq> []" and "0x2C \<notin> set payload"
  shows "processAndEncode br cv = Inr \<lparr> mimeType = js ''image/jpeg'', data = payload \<rparr>"
  unfolding processAndEncode_def Let_def assms(1) jpeg_url_split [OF assms(3)]
  using assms(2) by (simp add: second_def truthy_def)

lemma data_url_jpeg:
  "js ''data:'' @ js ''image/jpeg'' @ js '';base64,'' @ p = js ''data:image/jpeg;base64,'' @ p"
  by (simp add: js_def)

lemma pngFile_large:
  "\<not> (2000 \<le> MAX_IMAGE_DIMENSION \<and> 1000 \<le> MAX_IMAGE_DIMENSION \<and> file_type pngFile = js ''image/jpeg'')"
  by (simp add: MAX_IMAGE_DIMENSION_def)

lemma pngFile_loads:
  "loadImageFile browserOk pngFile = Some (2000, 1000)"
  "loadImageFile browserNoResize pngFile = Some (2000, 1000)"
  by (simp_all add: browserOk_simps browserNoResize_simps pngFile_def js_def)

theorem normalizer_sizes_witness:
  "fileToBase64 env0 browserOk pngFile = Inr \<lparr> mimeType = js ''image/jpeg'', data = js ''1024x512'' \<rparr>
   \<and> fileToBase64 env0 browserOk jpegFile
       = Inr \<lparr> mimeType = js ''image/jpeg'', data = js ''/9j/4AAQSkZJRg=='' \<rparr>
   \<and> cwidth (finalCanvas browserOk \<lparr> cwidth = 2000, cheight = 1000, cpicture = LoadedFile pngFile \<rparr>) = 1024
   \<and> fst (ocrCanvasSize 800 600) \<le> 2048"
proof -
  have ctx: "\<And>w h. getContext2d browserOk w h" by (simp add: browserOk_simps)
  note sizes = normalizer_sizes [OF ctx, of env0 jpegFile]
  have unmodified: "fileToBase64 env0 browserOk jpegFile
       = Inr \<lparr> mimeType = js ''image/jpeg'', data = js ''/9j/4AAQSkZJRg=='' \<rparr>"
  proof -
    have "readAsDataURL browserOk jpegFile
            = Inr (js ''data:image/jpeg;base64,'' @ js ''/9j/4AAQSkZJRg=='')"
      by (simp add: browserOk_simps jpegFile_def js_def)
    moreover have "js ''/9j/4AAQSkZJRg=='' \<noteq> []" "0x2C \<notin> set (js ''/9j/4AAQSkZJRg=='')"
      by (simp_all add: js_def)
    ultimately show ?thesis
      using jpegFile_passes
      by (intro sizes [THEN conjunct2, THEN conjunct1, rule_format]) simp
  qed
  let ?cv = "\<lparr> cwidth = 2000, cheight = 1000, cpicture = LoadedFile pngFile \<rparr>"
  have resized: "finalCanvas browserOk ?cv
          = \<lparr> cwidth = 1024, cheight = 512, cpicture = Scaled (LoadedFile pngFile) 1024 512 \<rparr>"
    using finalCanvas_wide [of ?cv browserOk] by (simp add: browserOk_simps mathRound_numeral)
  have encoded: "fileToBase64 env0 browserOk pngFile
          = Inr \<lparr> mimeType = js ''image/jpeg'', data = js ''1024x512'' \<rparr>"
  proof -
    have "fileToBase64 env0 browserOk pngFile = processAndEncode browserOk ?cv"
      by (rule fileToBase64_large [OF pngFile_not_tiff(1) pngFile_loads(1) pngFile_large ctx])
    moreover have "processAndEncode browserOk ?cv
                     = Inr \<lparr> mimeType = js ''image/jpeg'', data = js ''1024x512'' \<rparr>"
      by (rule processAndEncode_jpeg)
         (simp_all add: resized browserOk_simps size_payloads data_url_jpeg, simp_all add: js_def)
    ultimately show ?thesis by simp
  qed
  have "fst (ocrCanvasSize 800 600) \<le> 2048"
    using sizes [THEN conjunct2, THEN conjunct2, THEN conjunct2, THEN conjunct2, THEN conjunct1]
    by blast
  then show ?thesis using unmodified encoded resized by simp
qed

text \<open>
  Where the resize canvas gets no context, the code warns and encodes the original
  canvas: a PNG of 2000 x 1000 resolves to a JPEG of 2000 x 1000.
\<close>

theorem normalizer_sizes_counterexample:
  "fileToBase64 env0 browserNoResize pngFile
     = Inr \<lparr> mimeType = js ''image/jpeg'', data = js ''2000x1000'' \<rparr>
   \<and> cwidth (finalCanvas browserNoResize
               \<lparr> cwidth = 2000, cheight = 1000, cpicture = LoadedFile pngFile \<rparr>) = 2000
   \<and> \<not> (2000 :: nat) \<le> 1024"
proof -
  let ?cv = "\<lparr> cwidth = 2000, cheight = 1000, cpicture = LoadedFile pngFile \<rparr>"
  have kept: "finalCanvas browserNoResize ?cv = ?cv"
    by (simp add: finalCanvas_def MAX_IMAGE_DIMENSION_def browserNoResize_simps mathRound_numeral Let_def)
  have "getContext2d browserNoResize 2000 1000"
    by (simp add: browserNoResize_simps)
  then have "fileToBase64 env0 browserNoResize pngFile = processAndEncode browserNoResize ?cv"
    by (rule fileToBase64_large [OF pngFile_not_tiff(1) pngFile_loads(2) pngFile_large])
  moreover have "processAndEncode browserNoResize ?cv
                   = Inr \<lparr> mimeType = js ''image/jpeg'', data = js ''2000x1000'' \<rparr>"
    by (rule processAndEncode_jpeg)
       (simp_all add: kept browserNoResize_simps size_payloads data_url_jpeg, simp_all add: js_def)
  ultimately have "fileToBase64 env0 browserNoResize pngFile
          = Inr \<lparr> mimeType = js ''image/jpeg'', data = js ''2000x1000'' \<rparr>"
    by simp
  then show ?thesis using kept by simp
qed

section \<open>Properties of the OCR preprocessing and extraction stages\<close>















lemma performOcr_no_text:
  assumes "generateContent env (ocrRequest env (length images) (map (preprocessImage br) images)) = Inr ocrResponse"
      and "\<not> truthy (resp_text ocrResponse)"
  shows "performOcr env br images =
     ([GenerateContent (ocrRequest env (length images) (map (preprocessImage br) images))],
      if resp_finishReason ocrResponse = Some (js ''SAFETY'') then
        Inl (handleApiError env
               (Error (js ''The OCR request was blocked due to safety settings. Please check the input images.''))
               (js ''OCR Operation''))
      else if truthy (resp_finishReason ocrResponse)
              \<and> resp_finishReason ocrResponse \<noteq> Some (js ''STOP'') then
        Inl (handleApiError env
               (Error (js ''OCR failed. The model stopped for reason: ''
                       @ the (resp_finishReason ocrResponse) @ js ''.''))
               (js ''OCR Operation''))
      else Inr (js ''No text could be extracted from the provided image(s). They may be empty or unclear.''))"
  using assms by (simp add: performOcr_def Let_def)

lemma handleApiError_is_Error: "\<exists>message. handleApiError env error operation = Error message"
  by (cases error) (simp_all add: handleApiError_def Let_def)

text \<open>
  C7. When the extraction call returns no text, the job issues no further call and its
  outcome follows the stop reason: \<open>SAFETY\<close> raises the blocked-content error; any
  other stated reason than \<open>STOP\<close> raises the stopped-for-reason error naming it; and
  \<open>STOP\<close> returns the fixed no-text sentence. An error leaves \<^verbatim>\<open>performOcr\<close> through
  \<^verbatim>\<open>handleApiError\<close>, always as an \<^verbatim>\<open>Error\<close>.
\<close>

theorem empty_output_classified:
  assumes "generateContent env (ocrRequest env (length images) (map (preprocessImage br) images)) = Inr ocrResponse"
      and "\<not> truthy (resp_text ocrResponse)"
  shows "fst (performOcr env br images)
           = [GenerateContent (ocrRequest env (length images) (map (preprocessImage br) images))]
       \<and> (resp_finishReason ocrResponse = Some (js ''SAFETY'') \<longrightarrow>
            snd (performOcr env br images)
              = Inl (handleApiError env
                       (Error (js ''The OCR request was blocked due to safety settings. Please check the input images.''))
                       (js ''OCR Operation'')))
       \<and> (\<forall>reason. resp_finishReason ocrResponse = Some reason \<and> reason \<noteq> []
              \<and> reason \<noteq> js ''SAFETY'' \<and> reason \<noteq> js ''STOP'' \<longrightarrow>
            snd (performOcr env br images)
              = Inl (handleApiError env
                       (Error (js ''OCR failed. The model stopped for reason: '' @ reason @ js ''.''))
                       (js ''OCR Operation'')))
       \<and> (resp_finishReason ocrResponse = Some (js ''STOP'') \<longrightarrow>
            snd (performOcr env br images)
              = Inr (js ''No text could be extracted from the provided image(s). They may be empty or unclear.''))
       \<and> (\<forall>error. snd (performOcr env br images) = Inl error \<longrightarrow> (\<exists>message. error = Error message))"
proof -
  note run = performOcr_no_text [OF assms]
  have stop_not_safety: "js ''STOP'' \<noteq> js ''SAFETY''" by (simp add: js_def)
  have "\<forall>error. snd (performOcr env br images) = Inl error \<longrightarrow> (\<exists>message. error = Error message)"
    using handleApiError_is_Error [of env] by (auto simp: run split: if_splits)
  then show ?thesis
    by (simp add: run truthy_def stop_not_safety)
qed

lemma envStop_simps:
  "generateContent (envStop reason) request = Inr \<lparr> resp_text = None, resp_finishReason = reason \<rparr>"
  "toLowerCase (envStop reason) s = asciiLowerCase s"
  by (simp_all add: envStop_def env0_def)

lemma plain_failure:
  assumes "\<not> str_includes (asciiLowerCase message) (js ''xhr error'')"
      and "\<not> str_includes (asciiLowerCase message) (js ''rpc failed'')"
      and "\<not> str_includes (asciiLowerCase message) (js ''500'')"
  shows "handleApiError (envStop reason) (Error message) operation
           = Error (js ''The '' @ operation @ js '' failed: '' @ message)"
  using assms by (simp add: handleApiError_def envStop_simps Let_def)

lemma blocked_message:
  "handleApiError (envStop reason)
     (Error (js ''The OCR request was blocked due to safety settings. Please check the input images.''))
     (js ''OCR Operation'')
   = Error (js ''The OCR Operation failed: The OCR request was blocked due to safety settings. Please check the input images.'')"
  by (rule plain_failure [THEN trans])
     (simp_all add: str_includes_def asciiLowerCase_def js_def sublist_code(3))

lemma stopped_message:
  "handleApiError (envStop reason)
     (Error (js ''OCR failed. The model stopped for reason: '' @ js ''MAX_TOKENS'' @ js ''.''))
     (js ''OCR Operation'')
   = Error (js ''The OCR Operation failed: OCR failed. The model stopped for reason: MAX_TOKENS.'')"
  by (rule plain_failure [THEN trans])
     (simp_all add: str_includes_def asciiLowerCase_def js_def sublist_code(3))

theorem empty_output_classified_witness:
  "snd (performOcr (envStop (Some (js ''SAFETY''))) browser0 [gifImage])
     = Inl (Error (js ''The OCR Operation failed: The OCR request was blocked due to safety settings. Please check the input images.''))
   \<and> snd (performOcr (envStop (Some (js ''MAX_TOKENS''))) browser0 [gifImage])
     = Inl (Error (js ''The OCR Operation failed: OCR failed. The model stopped for reason: MAX_TOKENS.''))
   \<and> snd (performOcr (envStop (Some (js ''STOP''))) browser0 [gifImage])
     = Inr (js ''No text could be extracted from the provided image(s). They may be empty or unclear.'')"
proof -
  have call: "generateContent (envStop reason)
                (ocrRequest (envStop reason) (length [gifImage]) (map (preprocessImage browser0) [gifImage]))
              = Inr \<lparr> resp_text = None, resp_finishReason = reason \<rparr>" for reason
    by (simp add: envStop_simps)
  have silent: "\<not> truthy (resp_text \<lparr> resp_text = None, resp_finishReason = reason \<rparr>)" for reason
    by (simp add: truthy_def)
  note classified = empty_output_classified [OF call silent]
  have distinct: "js ''MAX_TOKENS'' \<noteq> []" "js ''MAX_TOKENS'' \<noteq> js ''SAFETY''"
    "js ''MAX_TOKENS'' \<noteq> js ''STOP''"
    by (simp_all add: js_def)
  have "snd (performOcr (envStop (Some (js ''SAFETY''))) browser0 [gifImage])
     = Inl (Error (js ''The OCR Operation failed: The OCR request was blocked due to safety settings. Please check the input images.''))"
    using classified [of "Some (js ''SAFETY'')", THEN conjunct2, THEN conjunct1]
    by (simp add: blocked_message)
  moreover have "snd (performOcr (envStop (Some (js ''MAX_TOKENS''))) browser0 [gifImage])
     = Inl (Error (js ''The OCR Operation failed: OCR failed. The model stopped for reason: MAX_TOKENS.''))"
    using classified [of "Some (js ''MAX_TOKENS'')", THEN conjunct2, THEN conjunct2, THEN conjunct1,
                      rule_format, of "js ''MAX_TOKENS''"] distinct
    by (simp add: stopped_message)
  moreover have "snd (performOcr (envStop (Some (js ''STOP''))) browser0 [gifImage])
     = Inr (js ''No text could be extracted from the provided image(s). They may be empty or unclear.'')"
    using classified [of "Some (js ''STOP'')", THEN conjunct2, THEN conjunct2, THEN conjunct2, THEN conjunct1]
    by simp
  ultimately show ?thesis by simp
qed

end
